theory Spec2Isabelle
  imports Main "HOL-Library.Char_ord" "HOL-Library.List_Lexorder"
begin

section \<open>JavaScript values\<close>

text \<open>
  The values that travel through the signalling code: request bodies, query parameters,
  envelopes and SDP/ICE payloads. Objects are association lists of their own properties
  (keys distinct), arrays are lists. Numbers are integers: the code only ever tests a
  number for being zero (truthiness) and stores \<open>Date.now()\<close>.
\<close>

datatype jsval =
    JUndefined
  | JNull
  | JBool bool
  | JNum int
  | JStr string
  | JArr "jsval list"
  | JObj "(string \<times> jsval) list"

text \<open>\<open>!v\<close> is \<open>\<not> truthy v\<close>: undefined, null, false, 0 and the empty string are falsy.\<close>

fun truthy :: "jsval \<Rightarrow> bool" where
  "truthy JUndefined = False"
| "truthy JNull = False"
| "truthy (JBool b) = b"
| "truthy (JNum n) = (n \<noteq> 0)"
| "truthy (JStr s) = (s \<noteq> [])"
| "truthy (JArr xs) = True"
| "truthy (JObj kvs) = True"

text \<open>
  Reading properties off a value, as the destructuring \<open>const { roomId, ... } = req.body\<close>
  and \<open>req.query.roomId\<close> do: on undefined or null the read throws a TypeError (\<open>None\<close>);
  on an object it gives the property or undefined; no other value has one of the
  properties this code reads.
\<close>

fun get_prop :: "jsval \<Rightarrow> string \<Rightarrow> jsval" where
  "get_prop (JObj kvs) k = (case map_of kvs k of None \<Rightarrow> JUndefined | Some v \<Rightarrow> v)"
| "get_prop v k = JUndefined"

fun destructure :: "jsval \<Rightarrow> (string \<Rightarrow> jsval) option" where
  "destructure JUndefined = None"
| "destructure JNull = None"
| "destructure v = Some (get_prop v)"

text \<open>The message of that TypeError is worded by the engine; nothing depends on its text.\<close>

definition TypeError_message :: string where
  "TypeError_message = ''Cannot read or destructure a property of undefined or null''"

text \<open>Decimal digits of a natural number, for numbers inside template literals.\<close>

fun digits :: "nat \<Rightarrow> string" where
  "digits n = (if n < 10 then [char_of (48 + n)] else digits (n div 10) @ [char_of (48 + n mod 10)])"

fun join_commas :: "string list \<Rightarrow> string" where
  "join_commas [] = []"
| "join_commas [s] = s"
| "join_commas (s # t # ss) = s @ '','' @ join_commas (t # ss)"

text \<open>
  String conversion inside a template literal \<open>`signals:${roomId}`\<close>. An array joins its
  elements with commas, null and undefined elements giving the empty string.
\<close>

fun to_string :: "jsval \<Rightarrow> string" where
  "to_string JUndefined = ''undefined''"
| "to_string JNull = ''null''"
| "to_string (JBool b) = (if b then ''true'' else ''false'')"
| "to_string (JNum n) = (if n < 0 then ''-'' @ digits (nat (- n)) else digits (nat n))"
| "to_string (JStr s) = s"
| "to_string (JArr xs) =
     join_commas (map (\<lambda>x. if x = JUndefined \<or> x = JNull then [] else to_string x) xs)"
| "to_string (JObj kvs) = ''[object Object]''"

section \<open>JSON text\<close>

text \<open>
  \<open>JSON.stringify\<close> on the values above: a string is quoted, with the quote, the
  backslash and the control characters escaped; an object leaves out the properties
  whose value is undefined, and an array writes null for an undefined element. The code
  stringifies the envelope only, which is an object.
\<close>

definition quote :: char where
  "quote = CHR 0x22"

definition backslash :: char where
  "backslash = CHR 0x5C"

definition hex_digit :: "nat \<Rightarrow> char" where
  "hex_digit n = (if n < 10 then char_of (48 + n) else char_of (87 + n))"

definition escape_char :: "char \<Rightarrow> string" where
  "escape_char c =
     (if c = quote then [backslash, quote]
      else if c = backslash then [backslash, backslash]
      else if c = CHR 0x08 then [backslash, CHR ''b'']
      else if c = CHR 0x09 then [backslash, CHR ''t'']
      else if c = CHR 0x0A then [backslash, CHR ''n'']
      else if c = CHR 0x0C then [backslash, CHR ''f'']
      else if c = CHR 0x0D then [backslash, CHR ''r'']
      else if (of_char c :: nat) < 32
      then [backslash, CHR ''u'', CHR ''0'', CHR ''0'',
            hex_digit (of_char c div 16), hex_digit (of_char c mod 16)]
      else [c])"

definition quote_string :: "string \<Rightarrow> string" where
  "quote_string s = quote # concat (map escape_char s) @ [quote]"

fun JSON_stringify :: "jsval \<Rightarrow> string" where
  "JSON_stringify JUndefined = ''undefined''"
| "JSON_stringify JNull = ''null''"
| "JSON_stringify (JBool b) = (if b then ''true'' else ''false'')"
| "JSON_stringify (JNum n) = to_string (JNum n)"
| "JSON_stringify (JStr s) = quote_string s"
| "JSON_stringify (JArr xs) =
     ''['' @ join_commas (map (\<lambda>x. if x = JUndefined then ''null'' else JSON_stringify x) xs) @ '']''"
| "JSON_stringify (JObj kvs) =
     ''{'' @ join_commas (map (\<lambda>(k, v). quote_string k @ '':'' @ JSON_stringify v)
                           (filter (\<lambda>(k, v). v \<noteq> JUndefined) kvs)) @ ''}''"

text \<open>
  What is left of a value after \<open>JSON.stringify\<close> and \<open>JSON.parse\<close>, as when the client
  posts a message and the server reads the body.
\<close>

fun json_norm :: "jsval \<Rightarrow> jsval" where
  "json_norm (JArr xs) = JArr (map (\<lambda>x. if x = JUndefined then JNull else json_norm x) xs)"
| "json_norm (JObj kvs) =
     JObj (map (\<lambda>(k, v). (k, json_norm v)) (filter (\<lambda>(k, v). v \<noteq> JUndefined) kvs))"
| "json_norm v = v"

text \<open>
  \<open>JSON.parse\<close> belongs to the engine, and the handlers below take it as a parameter
  \<open>parse\<close>, \<open>None\<close> where it throws a SyntaxError. \<open>JSON_parse\<close> is a reader for the JSON
  texts of the values above, by recursive descent: white space, the three literals,
  strings with their escapes, arrays, objects (a repeated key keeps its place and takes
  the later value) and integers. It does not read a number with a fraction or an
  exponent, nor an escape above \<open>\u007f\<close>, which no value here has. The first argument of
  \<open>read_value\<close> bounds the depth of the descent; twice the length of the text is enough.
\<close>

definition is_ws :: "char \<Rightarrow> bool" where
  "is_ws c = (c = CHR 0x20 \<or> c = CHR 0x09 \<or> c = CHR 0x0A \<or> c = CHR 0x0D)"

definition skip_ws :: "string \<Rightarrow> string" where
  "skip_ws s = dropWhile is_ws s"

definition is_digit :: "char \<Rightarrow> bool" where
  "is_digit c = (48 \<le> (of_char c :: nat) \<and> (of_char c :: nat) \<le> 57)"

definition nat_of_digits :: "string \<Rightarrow> nat" where
  "nat_of_digits ds = foldl (\<lambda>n c. 10 * n + (of_char c - 48)) 0 ds"

definition hex_val :: "char \<Rightarrow> nat option" where
  "hex_val c =
     (let n = (of_char c :: nat)
      in if 48 \<le> n \<and> n \<le> 57 then Some (n - 48)
         else if 97 \<le> n \<and> n \<le> 102 then Some (n - 87)
         else if 65 \<le> n \<and> n \<le> 70 then Some (n - 55)
         else None)"

definition unescape :: "char \<Rightarrow> char option" where
  "unescape e =
     (if e = quote then Some quote
      else if e = backslash then Some backslash
      else if e = CHR ''/'' then Some (CHR ''/'')
      else if e = CHR ''b'' then Some (CHR 0x08)
      else if e = CHR ''f'' then Some (CHR 0x0C)
      else if e = CHR ''n'' then Some (CHR 0x0A)
      else if e = CHR ''r'' then Some (CHR 0x0D)
      else if e = CHR ''t'' then Some (CHR 0x09)
      else None)"

definition with_char :: "char \<Rightarrow> (string \<times> string) option \<Rightarrow> (string \<times> string) option" where
  "with_char c r = (case r of None \<Rightarrow> None | Some (t, rest) \<Rightarrow> Some (c # t, rest))"

fun read_chars :: "string \<Rightarrow> (string \<times> string) option" where
  "read_chars [] = None"
| "read_chars (c # r) =
     (if c = quote then Some ([], r)
      else if c = backslash then
        (case r of
           [] \<Rightarrow> None
         | e # r1 \<Rightarrow>
             if e = CHR ''u'' then
               (case r1 of
                  h1 # h2 # h3 # h4 # r2 \<Rightarrow>
                    (case (hex_val h1, hex_val h2, hex_val h3, hex_val h4) of
                       (Some a, Some b, Some c3, Some d) \<Rightarrow>
                         if a = 0 \<and> b = 0 \<and> c3 < 8
                         then with_char (char_of (16 * c3 + d)) (read_chars r2)
                         else None
                     | _ \<Rightarrow> None)
                | _ \<Rightarrow> None)
             else (case unescape e of
                     None \<Rightarrow> None
                   | Some ch \<Rightarrow> with_char ch (read_chars r1)))
      else if (of_char c :: nat) < 32 then None
      else with_char c (read_chars r))"

definition read_number :: "string \<Rightarrow> (jsval \<times> string) option" where
  "read_number s =
     (let neg = (s \<noteq> [] \<and> hd s = CHR ''-'');
          s1 = (if neg then tl s else s);
          ds = takeWhile is_digit s1;
          rest = dropWhile is_digit s1
      in if ds = [] then None
         else if 1 < length ds \<and> hd ds = CHR ''0'' then None
         else if rest \<noteq> [] \<and> hd rest \<in> {CHR ''.'', CHR ''e'', CHR ''E''} then None
         else Some (JNum (if neg then - int (nat_of_digits ds) else int (nat_of_digits ds)), rest))"

definition put_property :: "(string \<times> jsval) list \<Rightarrow> string \<times> jsval \<Rightarrow> (string \<times> jsval) list" where
  "put_property kvs kv =
     (if fst kv \<in> fst ` set kvs
      then map (\<lambda>p. if fst p = fst kv then kv else p) kvs
      else kvs @ [kv])"

fun read_value :: "nat \<Rightarrow> string \<Rightarrow> (jsval \<times> string) option"
  and read_elements :: "nat \<Rightarrow> string \<Rightarrow> (jsval list \<times> string) option"
  and read_members :: "nat \<Rightarrow> string \<Rightarrow> ((string \<times> jsval) list \<times> string) option" where
  "read_value 0 s = None"
| "read_value (Suc n) s =
     (case skip_ws s of
        [] \<Rightarrow> None
      | c # r \<Rightarrow>
          if c = CHR ''{'' then
            (case skip_ws r of
               [] \<Rightarrow> None
             | c1 # r1 \<Rightarrow>
                 if c1 = CHR ''}'' then Some (JObj [], r1)
                 else (case read_members n r of
                         None \<Rightarrow> None
                       | Some (kvs, rest) \<Rightarrow> Some (JObj (foldl put_property [] kvs), rest)))
          else if c = CHR ''['' then
            (case skip_ws r of
               [] \<Rightarrow> None
             | c1 # r1 \<Rightarrow>
                 if c1 = CHR '']'' then Some (JArr [], r1)
                 else (case read_elements n r of
                         None \<Rightarrow> None
                       | Some (vs, rest) \<Rightarrow> Some (JArr vs, rest)))
          else if c = quote then
            (case read_chars r of None \<Rightarrow> None | Some (t, rest) \<Rightarrow> Some (JStr t, rest))
          else if take 4 (c # r) = ''null'' then Some (JNull, drop 4 (c # r))
          else if take 4 (c # r) = ''true'' then Some (JBool True, drop 4 (c # r))
          else if take 5 (c # r) = ''false'' then Some (JBool False, drop 5 (c # r))
          else read_number (c # r))"
| "read_elements 0 s = None"
| "read_elements (Suc n) s =
     (case read_value n s of
        None \<Rightarrow> None
      | Some (v, r) \<Rightarrow>
          (case skip_ws r of
             [] \<Rightarrow> None
           | c # r1 \<Rightarrow>
               if c = CHR '','' then
                 (case read_elements n r1 of
                    None \<Rightarrow> None
                  | Some (vs, rest) \<Rightarrow> Some (v # vs, rest))
               else if c = CHR '']'' then Some ([v], r1)
               else None))"
| "read_members 0 s = None"
| "read_members (Suc n) s =
     (case skip_ws s of
        [] \<Rightarrow> None
      | c # r \<Rightarrow>
          if c \<noteq> quote then None
          else
            (case read_chars r of
               None \<Rightarrow> None
             | Some (k, r1) \<Rightarrow>
                 (case skip_ws r1 of
                    [] \<Rightarrow> None
                  | c1 # r2 \<Rightarrow>
                      if c1 \<noteq> CHR '':'' then None
                      else
                        (case read_value n r2 of
                           None \<Rightarrow> None
                         | Some (v, r3) \<Rightarrow>
                             (case skip_ws r3 of
                                [] \<Rightarrow> None
                              | c2 # r4 \<Rightarrow>
                                  if c2 = CHR '','' then
                                    (case read_members n r4 of
                                       None \<Rightarrow> None
                                     | Some (kvs, rest) \<Rightarrow> Some ((k, v) # kvs, rest))
                                  else if c2 = CHR ''}'' then Some ([(k, v)], r4)
                                  else None)))))"

definition JSON_parse :: "string \<Rightarrow> jsval option" where
  "JSON_parse s =
     (case read_value (Suc (Suc (length s + length s))) s of
        None \<Rightarrow> None
      | Some (v, rest) \<Rightarrow> if skip_ws rest = [] then Some v else None)"

section \<open>The key-value store (Vercel KV lists)\<close>

text \<open>
  The store maps a key to a Redis list of strings, most recently pushed first; a key
  without a list is absent. \<open>lpush\<close> puts a string at the head and \<open>del\<close> removes the key.
  The \<open>@vercel/kv\<close> client deserialises what it reads: \<open>lrange key 0 -1\<close> hands back,
  for every string of the list, the value the string parses to as JSON, and the string
  itself when it does not parse.
\<close>

type_synonym kv = "string \<Rightarrow> string list option"

definition stored :: "string \<Rightarrow> kv \<Rightarrow> string list" where
  "stored key store = (case store key of None \<Rightarrow> [] | Some items \<Rightarrow> items)"

definition deserialize :: "(string \<Rightarrow> jsval option) \<Rightarrow> string \<Rightarrow> jsval" where
  "deserialize parse s = (case parse s of None \<Rightarrow> JStr s | Some v \<Rightarrow> v)"

definition lrange_all :: "(string \<Rightarrow> jsval option) \<Rightarrow> string \<Rightarrow> kv \<Rightarrow> jsval list" where
  "lrange_all parse key store = map (deserialize parse) (stored key store)"

definition lpush :: "string \<Rightarrow> string \<Rightarrow> kv \<Rightarrow> kv" where
  "lpush key item store = store(key \<mapsto> item # stored key store)"

definition del :: "string \<Rightarrow> kv \<Rightarrow> kv" where
  "del key store = store(key := None)"

section \<open>Polling binding: the two serverless handlers\<close>

record request =
  req_method :: string  \<comment> \<open>\<open>req.method\<close>\<close>
  query :: jsval
  body :: jsval

record response =
  status :: nat
  json :: jsval

definition error_json :: "string \<Rightarrow> jsval" where
  "error_json msg = JObj [(''error'', JStr msg)]"

text \<open>
  api/sendSignal.js. \<open>now\<close> is the value of \<open>Date.now()\<close>. Everything thrown inside the
  \<open>try\<close> block ends in the \<open>catch\<close>: status 400 with the error's message. The handler
  sends one command to the store.
\<close>

definition sendSignal_handler :: "int \<Rightarrow> request \<Rightarrow> kv \<Rightarrow> response \<times> kv" where
  "sendSignal_handler now req store =
     (if req_method req \<noteq> ''POST''
      then (\<lparr>status = 405, json = error_json ''Only POST is allowed''\<rparr>, store)
      else
        case destructure (body req) of
          None \<Rightarrow> (\<lparr>status = 400, json = error_json TypeError_message\<rparr>, store)
        | Some field \<Rightarrow>
            let roomId = field ''roomId'';
                fromPeer = field ''fromPeer'';
                type = field ''type'';
                data = field ''data''
            in if \<not> truthy roomId \<or> \<not> truthy fromPeer \<or> \<not> truthy type \<or> data = JUndefined
               then (\<lparr>status = 400,
                      json = error_json ''Missing one of {roomId, fromPeer, type, data}''\<rparr>, store)
               else
                 let envelope = JObj [(''fromPeer'', fromPeer), (''type'', type),
                                      (''data'', data), (''timestamp'', JNum now)]
                 in (\<lparr>status = 200, json = JObj [(''ok'', JBool True)]\<rparr>,
                     lpush (''signals:'' @ to_string roomId) (JSON_stringify envelope) store))"

text \<open>
  api/getSignals.js. The handler sends two commands to the store, \<open>lrange\<close> and \<open>del\<close>,
  and awaits each: other requests can reach the store in between. A task is a request
  being handled, at its start or at one of the two awaits, or answered:
  \<open>Awaiting_lrange key rawList\<close> when \<open>lrange\<close> has read \<open>rawList\<close>,
  \<open>Awaiting_del envelopes\<close> when \<open>del\<close> has removed the key.

  \<open>JSON.parse(str)\<close> turns its argument into a string first; where it throws, the item
  becomes null, and the nulls are filtered out.
\<close>

datatype getSignals_task =
    Started request
  | Awaiting_lrange string "jsval list"
  | Awaiting_del "jsval list"
  | Responded response

definition parse_or_null :: "(string \<Rightarrow> jsval option) \<Rightarrow> jsval \<Rightarrow> jsval" where
  "parse_or_null parse str = (case parse (to_string str) of Some v \<Rightarrow> v | None \<Rightarrow> JNull)"

fun getSignals_step ::
  "(string \<Rightarrow> jsval option) \<Rightarrow> getSignals_task \<Rightarrow> kv \<Rightarrow> getSignals_task \<times> kv" where
  "getSignals_step parse (Started req) store =
     (if req_method req \<noteq> ''GET''
      then (Responded \<lparr>status = 405, json = error_json ''Only GET is allowed''\<rparr>, store)
      else
        case destructure (query req) of
          None \<Rightarrow>
            (Responded \<lparr>status = 400,
               json = JObj [(''error'', JStr TypeError_message), (''signals'', JArr [])]\<rparr>, store)
        | Some field \<Rightarrow>
            let roomId = field ''roomId''
            in if \<not> truthy roomId
               then (Responded \<lparr>status = 400,
                       json = JObj [(''error'', JStr ''Missing roomId''), (''signals'', JArr [])]\<rparr>,
                     store)
               else
                 let key = ''signals:'' @ to_string roomId
                 in (Awaiting_lrange key (lrange_all parse key store), store))"
| "getSignals_step parse (Awaiting_lrange key rawList) store =
     (if length rawList = 0
      then (Responded \<lparr>status = 200, json = JObj [(''signals'', JArr [])]\<rparr>, store)
      else
        let envelopes = filter (\<lambda>e. e \<noteq> JNull) (map (parse_or_null parse) rawList)
        in (Awaiting_del envelopes, del key store))"
| "getSignals_step parse (Awaiting_del envelopes) store =
     (Responded \<lparr>status = 200, json = JObj [(''signals'', JArr envelopes)]\<rparr>, store)"
| "getSignals_step parse (Responded res) store = (Responded res, store)"

fun response_of :: "getSignals_task \<Rightarrow> response option" where
  "response_of (Responded res) = Some res"
| "response_of task = None"

text \<open>The handler when no other request reaches the store before it has answered.\<close>

definition getSignals_handler ::
  "(string \<Rightarrow> jsval option) \<Rightarrow> request \<Rightarrow> kv \<Rightarrow> response option \<times> kv" where
  "getSignals_handler parse req store =
     (case getSignals_step parse (Started req) store of
        (task1, store1) \<Rightarrow>
          (case getSignals_step parse task1 store1 of
             (task2, store2) \<Rightarrow>
               (case getSignals_step parse task2 store2 of
                  (task3, store3) \<Rightarrow> (response_of task3, store3))))"

section \<open>The browser's peer connection\<close>

text \<open>
  \<open>RTCPeerConnection\<close> belongs to the browser. Its state is a parameter \<open>'pc\<close>, and each
  call the clients make is a function of that state, giving the state afterwards and the
  result: a description for \<open>createOffer\<close> and \<open>createAnswer\<close> (\<open>None\<close> when the promise
  rejects), and for the others whether the call went through (\<open>False\<close> when it throws;
  building the \<open>RTCSessionDescription\<close> or \<open>RTCIceCandidate\<close> from the received data is
  part of the call).
\<close>

record 'pc rtc_api =
  createOffer :: "'pc \<Rightarrow> 'pc \<times> jsval option"
  createAnswer :: "'pc \<Rightarrow> 'pc \<times> jsval option"
  setLocalDescription :: "jsval \<Rightarrow> 'pc \<Rightarrow> 'pc \<times> bool"
  setRemoteDescription :: "jsval \<Rightarrow> 'pc \<Rightarrow> 'pc \<times> bool"
  addIceCandidate :: "jsval \<Rightarrow> 'pc \<Rightarrow> 'pc \<times> bool"

text \<open>A connection on which every call succeeds; its state counts the calls made.\<close>

definition rtc_ok :: "nat rtc_api" where
  "rtc_ok =
     \<lparr>createOffer = (\<lambda>pc. (Suc pc, Some (JObj [(''type'', JStr ''offer'')]))),
      createAnswer = (\<lambda>pc. (Suc pc, Some (JObj [(''type'', JStr ''answer'')]))),
      setLocalDescription = (\<lambda>d pc. (Suc pc, True)),
      setRemoteDescription = (\<lambda>d pc. (Suc pc, True)),
      addIceCandidate = (\<lambda>d pc. (Suc pc, True))\<rparr>"

text \<open>A JavaScript \<open>Set\<close> of strings, in insertion order.\<close>

definition Set_add :: "string \<Rightarrow> string list \<Rightarrow> string list" where
  "Set_add x xs = (if x \<in> set xs then xs else xs @ [x])"

section \<open>Live-channel binding: the server (server.js)\<close>

text \<open>
  What a client emits to the server and what the server emits to a client. A target is a
  socket id, or null when the client has none (\<open>None\<close>).
\<close>

datatype emitted =
    Join_room string
  | Emit_offer "string option" jsval
  | Emit_answer "string option" jsval
  | Emit_ice_candidate "string option" jsval

datatype delivered =
    New_participant string
  | Offer string jsval
  | Answer string jsval
  | Ice_candidate string jsval
  | Peer_disconnected string

datatype server_event =
    Connection string
  | Message string emitted
  | Disconnect string

text \<open>
  The Socket.IO state the handlers work on: the connected sockets, the rooms of the
  adapter (a room is the set of its sockets, in joining order; a socket is in the room
  named by its own id from its connection on), and for every socket the listeners
  registered for it. The handler of \<open>join-room\<close> registers the listeners for \<open>offer\<close>,
  \<open>answer\<close>, \<open>ice-candidate\<close> and \<open>disconnect\<close> each time it runs, and they close over
  its \<open>roomId\<close>: \<open>listeners s sid\<close> holds one \<open>roomId\<close> for each run, in order.
\<close>

record server =
  connected :: "string list"
  rooms :: "string \<Rightarrow> string list"
  listeners :: "string \<Rightarrow> string list"

definition init_server :: server where
  "init_server = \<lparr>connected = [], rooms = (\<lambda>r. []), listeners = (\<lambda>sid. [])\<rparr>"

text \<open>
  \<open>io.to(room)\<close> addresses every socket of the room, \<open>socket.to(room)\<close> every socket of
  the room but the sender. No socket is in a room named null.
\<close>

definition io_to :: "(string \<Rightarrow> string list) \<Rightarrow> string option \<Rightarrow> string list" where
  "io_to rms target = (case target of None \<Rightarrow> [] | Some room \<Rightarrow> rms room)"

definition socket_to :: "(string \<Rightarrow> string list) \<Rightarrow> string \<Rightarrow> string \<Rightarrow> string list" where
  "socket_to rms sid room = filter (\<lambda>m. m \<noteq> sid) (rms room)"

definition emit_to :: "string list \<Rightarrow> delivered \<Rightarrow> (string \<times> delivered) list" where
  "emit_to recipients msg = map (\<lambda>m. (m, msg)) recipients"

text \<open>
  A relayed event runs every listener registered for it on the sending socket, one after
  the other; each emits to \<open>io.to(targetId)\<close>.
\<close>

definition relay ::
  "server \<Rightarrow> string \<Rightarrow> string option \<Rightarrow> delivered \<Rightarrow> (string \<times> delivered) list" where
  "relay s sid targetId msg =
     concat (map (\<lambda>roomId. emit_to (io_to (rooms s) targetId) msg) (listeners s sid))"

text \<open>
  One event at the server: the state afterwards and the messages delivered, each with the
  socket it goes to. Only a connected socket sends events, and socket ids are unique: an
  event of a socket that is not connected, or a connection under an id that is connected,
  does not occur and changes nothing here. On a disconnect Socket.IO takes the socket out
  of all its rooms before the \<open>disconnect\<close> listeners run.
\<close>

fun server_step :: "server_event \<Rightarrow> server \<Rightarrow> server \<times> (string \<times> delivered) list" where
  "server_step (Connection sid) s =
     (if sid \<in> set (connected s) then (s, [])
      else (s\<lparr>connected := connected s @ [sid],
              rooms := (rooms s)(sid := Set_add sid (rooms s sid)),
              listeners := (listeners s)(sid := [])\<rparr>, []))"
| "server_step (Message sid (Join_room roomId)) s =
     (if sid \<notin> set (connected s) then (s, [])
      else
        (let rooms1 = (rooms s)(roomId := Set_add sid (rooms s roomId))
         in (s\<lparr>rooms := rooms1,
                listeners := (listeners s)(sid := listeners s sid @ [roomId])\<rparr>,
             emit_to (socket_to rooms1 sid roomId) (New_participant sid))))"
| "server_step (Message sid (Emit_offer targetId offer)) s =
     (if sid \<notin> set (connected s) then (s, [])
      else (s, relay s sid targetId (Offer sid offer)))"
| "server_step (Message sid (Emit_answer targetId answer)) s =
     (if sid \<notin> set (connected s) then (s, [])
      else (s, relay s sid targetId (Answer sid answer)))"
| "server_step (Message sid (Emit_ice_candidate targetId candidate)) s =
     (if sid \<notin> set (connected s) then (s, [])
      else (s, relay s sid targetId (Ice_candidate sid candidate)))"
| "server_step (Disconnect sid) s =
     (if sid \<notin> set (connected s) then (s, [])
      else
        (let rooms1 = (\<lambda>r. removeAll sid (rooms s r))
         in (s\<lparr>connected := removeAll sid (connected s),
                rooms := rooms1,
                listeners := (listeners s)(sid := [])\<rparr>,
             concat (map (\<lambda>roomId. emit_to (socket_to rooms1 sid roomId) (Peer_disconnected sid))
                         (listeners s sid)))))"

fun run_server :: "server_event list \<Rightarrow> server \<Rightarrow> server \<times> (string \<times> delivered) list" where
  "run_server [] s = (s, [])"
| "run_server (e # es) s =
     (case server_step e s of
        (s1, out) \<Rightarrow> (case run_server es s1 of (s2, outs) \<Rightarrow> (s2, out @ outs)))"

section \<open>Live-channel binding: the client (public/script.js)\<close>

record 'pc live_client =
  lc_otherPeerId :: "string option"
  lc_peerConnection :: "'pc option"
  lc_statusDisplay :: string

text \<open>What a handler of the client does to the outside: emit on the socket, close the connection.\<close>

datatype effect = Emit emitted | Close_peerConnection

text \<open>The status texts start with a red circle, U+1F534, here as its four bytes of UTF-8.\<close>

definition red_circle :: string where
  "red_circle = [CHR 0xF0, CHR 0x9F, CHR 0x94, CHR 0xB4]"

definition Connecting :: string where
  "Connecting = red_circle @ '' Connecting...''"

definition Peer_Left :: string where
  "Peer_Left = red_circle @ '' Peer Left''"

text \<open>The client when it emits \<open>join-room\<close>: connection created, no peer known.\<close>

definition init_live_client :: "'pc \<Rightarrow> 'pc live_client" where
  "init_live_client pc =
     \<lparr>lc_otherPeerId = None, lc_peerConnection = Some pc, lc_statusDisplay = Connecting\<rparr>"

text \<open>\<open>!otherPeerId\<close> holds for null and for the empty string.\<close>

definition truthy_id :: "string option \<Rightarrow> bool" where
  "truthy_id x = (case x of None \<Rightarrow> False | Some i \<Rightarrow> i \<noteq> [])"

definition live_createAndSendOffer :: "'pc rtc_api \<Rightarrow> 'pc live_client \<Rightarrow> 'pc live_client \<times> effect list" where
  "live_createAndSendOffer api c =
     (case lc_peerConnection c of
        None \<Rightarrow> (c, [])
      | Some pc \<Rightarrow>
          (case createOffer api pc of
             (pc1, None) \<Rightarrow> (c\<lparr>lc_peerConnection := Some pc1\<rparr>, [])
           | (pc1, Some offer) \<Rightarrow>
               (case setLocalDescription api offer pc1 of
                  (pc2, False) \<Rightarrow> (c\<lparr>lc_peerConnection := Some pc2\<rparr>, [])
                | (pc2, True) \<Rightarrow>
                    (c\<lparr>lc_peerConnection := Some pc2\<rparr>,
                     [Emit (Emit_offer (lc_otherPeerId c) offer)]))))"

definition on_new_participant ::
  "'pc rtc_api \<Rightarrow> 'pc live_client \<Rightarrow> string \<Rightarrow> 'pc live_client \<times> effect list" where
  "on_new_participant api c socketId =
     (if \<not> truthy_id (lc_otherPeerId c)
      then live_createAndSendOffer api (c\<lparr>lc_otherPeerId := Some socketId\<rparr>)
      else (c, []))"

definition on_offer ::
  "'pc rtc_api \<Rightarrow> 'pc live_client \<Rightarrow> string \<Rightarrow> jsval \<Rightarrow> 'pc live_client \<times> effect list" where
  "on_offer api c callerId offer =
     (let c1 = c\<lparr>lc_otherPeerId := Some callerId\<rparr>
      in case lc_peerConnection c1 of
           None \<Rightarrow> (c1, [])
         | Some pc \<Rightarrow>
             (case setRemoteDescription api offer pc of
                (pc1, False) \<Rightarrow> (c1\<lparr>lc_peerConnection := Some pc1\<rparr>, [])
              | (pc1, True) \<Rightarrow>
                  (case createAnswer api pc1 of
                     (pc2, None) \<Rightarrow> (c1\<lparr>lc_peerConnection := Some pc2\<rparr>, [])
                   | (pc2, Some answer) \<Rightarrow>
                       (case setLocalDescription api answer pc2 of
                          (pc3, False) \<Rightarrow> (c1\<lparr>lc_peerConnection := Some pc3\<rparr>, [])
                        | (pc3, True) \<Rightarrow>
                            (c1\<lparr>lc_peerConnection := Some pc3\<rparr>,
                             [Emit (Emit_answer (lc_otherPeerId c1) answer)])))))"

definition on_answer ::
  "'pc rtc_api \<Rightarrow> 'pc live_client \<Rightarrow> string \<Rightarrow> jsval \<Rightarrow> 'pc live_client \<times> effect list" where
  "on_answer api c responderId answer =
     (case lc_peerConnection c of
        None \<Rightarrow> (c, [])
      | Some pc \<Rightarrow>
          (case setRemoteDescription api answer pc of
             (pc1, ok) \<Rightarrow> (c\<lparr>lc_peerConnection := Some pc1\<rparr>, [])))"

definition on_ice_candidate ::
  "'pc rtc_api \<Rightarrow> 'pc live_client \<Rightarrow> string \<Rightarrow> jsval \<Rightarrow> 'pc live_client \<times> effect list" where
  "on_ice_candidate api c fromId candidate =
     (case lc_peerConnection c of
        None \<Rightarrow> (c, [])
      | Some pc \<Rightarrow>
          (case addIceCandidate api candidate pc of
             (pc1, ok) \<Rightarrow> (c\<lparr>lc_peerConnection := Some pc1\<rparr>, [])))"

definition on_peer_disconnected ::
  "'pc live_client \<Rightarrow> string \<Rightarrow> 'pc live_client \<times> effect list" where
  "on_peer_disconnected c socketId =
     (if Some socketId = lc_otherPeerId c
      then (c\<lparr>lc_statusDisplay := Peer_Left, lc_peerConnection := None, lc_otherPeerId := None\<rparr>,
            (case lc_peerConnection c of None \<Rightarrow> [] | Some pc \<Rightarrow> [Close_peerConnection]))
      else (c, []))"

text \<open>The dispatch of \<open>socket.on\<close>: one message from the server, handled by its listener.\<close>

fun live_client_step ::
  "'pc rtc_api \<Rightarrow> 'pc live_client \<Rightarrow> delivered \<Rightarrow> 'pc live_client \<times> effect list" where
  "live_client_step api c (New_participant socketId) = on_new_participant api c socketId"
| "live_client_step api c (Offer callerId offer) = on_offer api c callerId offer"
| "live_client_step api c (Answer responderId answer) = on_answer api c responderId answer"
| "live_client_step api c (Ice_candidate fromId candidate) = on_ice_candidate api c fromId candidate"
| "live_client_step api c (Peer_disconnected socketId) = on_peer_disconnected c socketId"

fun live_client_run ::
  "'pc rtc_api \<Rightarrow> 'pc live_client \<Rightarrow> delivered list \<Rightarrow> 'pc live_client \<times> effect list" where
  "live_client_run api c [] = (c, [])"
| "live_client_run api c (m # ms) =
     (case live_client_step api c m of
        (c1, out) \<Rightarrow> (case live_client_run api c1 ms of (c2, outs) \<Rightarrow> (c2, out @ outs)))"

text \<open>
  Handing the server's deliveries to the clients: each message goes to the client of the
  socket it is addressed to; the effects are collected with the socket that caused them.
\<close>

fun deliver ::
  "'pc rtc_api \<Rightarrow> (string \<Rightarrow> 'pc live_client) \<Rightarrow> (string \<times> delivered) list \<Rightarrow>
   (string \<Rightarrow> 'pc live_client) \<times> (string \<times> effect) list" where
  "deliver api clients [] = (clients, [])"
| "deliver api clients ((sid, msg) # ds) =
     (case live_client_step api (clients sid) msg of
        (c1, out) \<Rightarrow>
          (case deliver api (clients(sid := c1)) ds of
             (clients2, outs) \<Rightarrow> (clients2, map (\<lambda>e. (sid, e)) out @ outs)))"

definition is_offer_effect :: "effect \<Rightarrow> bool" where
  "is_offer_effect e = (case e of Emit (Emit_offer t offer) \<Rightarrow> True | _ \<Rightarrow> False)"

text \<open>
  Two sockets connect and join the same room, \<open>first\<close> before \<open>second\<close>; the deliveries of
  the two joins are handed to clients that have just created their connections. The
  result lists who emitted what.
\<close>

definition two_join ::
  "'pc rtc_api \<Rightarrow> 'pc \<Rightarrow> string \<Rightarrow> string \<Rightarrow> string \<Rightarrow> (string \<times> effect) list" where
  "two_join api pc room first second =
     snd (deliver api (\<lambda>sid. init_live_client pc)
            (snd (run_server [Connection first, Connection second,
                              Message first (Join_room room),
                              Message second (Join_room room)] init_server)))"

section \<open>Polling binding: the client (script.js)\<close>

text \<open>
  An envelope as the drain endpoint returns it, and a message as \<open>sendSignal\<close> posts it.
  Identifiers are strings of ASCII letters and digits, which \<open><\<close> compares
  lexicographically by character code, as JavaScript does.
\<close>

record envelope =
  fromPeer :: string
  type :: string
  data :: jsval
  timestamp :: int

record message =
  msg_roomId :: string
  msg_fromPeer :: string
  msg_type :: string
  msg_data :: jsval

record 'pc client =
  roomId :: string
  clientId :: string
  peerConnection :: "'pc option"
  peersInRoom :: "string list"
  hasSentOffer :: bool

text \<open>The client's state when polling starts: connection created, nobody seen, no offer sent.\<close>

definition init_client :: "string \<Rightarrow> string \<Rightarrow> 'pc \<Rightarrow> 'pc client" where
  "init_client rid cid pc =
     \<lparr>roomId = rid, clientId = cid, peerConnection = Some pc, peersInRoom = [],
      hasSentOffer = False\<rparr>"

text \<open>
  \<open>createAndSendOffer\<close>: everything is inside \<open>try\<close>, so a missing connection (a TypeError)
  or a failing call sends nothing and is not passed on. The result is the client and the
  messages handed to \<open>sendSignal\<close>.
\<close>

definition createAndSendOffer ::
  "'pc rtc_api \<Rightarrow> 'pc client \<Rightarrow> string \<Rightarrow> 'pc client \<times> message list" where
  "createAndSendOffer api st otherPeerId =
     (case peerConnection st of
        None \<Rightarrow> (st, [])
      | Some pc \<Rightarrow>
          (case createOffer api pc of
             (pc1, None) \<Rightarrow> (st\<lparr>peerConnection := Some pc1\<rparr>, [])
           | (pc1, Some offer) \<Rightarrow>
               (case setLocalDescription api offer pc1 of
                  (pc2, False) \<Rightarrow> (st\<lparr>peerConnection := Some pc2\<rparr>, [])
                | (pc2, True) \<Rightarrow>
                    (st\<lparr>peerConnection := Some pc2\<rparr>,
                     [\<lparr>msg_roomId = roomId st, msg_fromPeer = clientId st,
                       msg_type = ''offer'', msg_data = offer\<rparr>]))))"

text \<open>
  The body of the loop in \<open>handleIncomingSignals\<close> for one envelope. The four tests of
  \<open>type\<close> are on the same string, so at most one of them fires. The third component of the
  result says that an exception left the body: that ends the loop, the rest of the batch
  is not processed.
\<close>

definition handle_envelope ::
  "'pc rtc_api \<Rightarrow> 'pc client \<Rightarrow> envelope \<Rightarrow> 'pc client \<times> message list \<times> bool" where
  "handle_envelope api st env =
     (if fromPeer env = clientId st then (st, [], False)
      else if type env = ''join'' then
        (let st1 = st\<lparr>peersInRoom := Set_add (fromPeer env) (peersInRoom st)\<rparr>
         in if \<not> hasSentOffer st1 \<and> length (peersInRoom st1) = 1
            then
              (let otherPeerId = hd (peersInRoom st1)
               in if clientId st1 < otherPeerId
                  then (case createAndSendOffer api st1 otherPeerId of
                          (st2, out) \<Rightarrow> (st2\<lparr>hasSentOffer := True\<rparr>, out, False))
                  else (st1, [], False))
            else (st1, [], False))
      else if type env = ''offer'' then
        (case peerConnection st of
           None \<Rightarrow> (st, [], True)
         | Some pc \<Rightarrow>
             (case setRemoteDescription api (data env) pc of
                (pc1, False) \<Rightarrow> (st\<lparr>peerConnection := Some pc1\<rparr>, [], True)
              | (pc1, True) \<Rightarrow>
                  (case createAnswer api pc1 of
                     (pc2, None) \<Rightarrow> (st\<lparr>peerConnection := Some pc2\<rparr>, [], True)
                   | (pc2, Some answer) \<Rightarrow>
                       (case setLocalDescription api answer pc2 of
                          (pc3, False) \<Rightarrow> (st\<lparr>peerConnection := Some pc3\<rparr>, [], True)
                        | (pc3, True) \<Rightarrow>
                            (st\<lparr>peerConnection := Some pc3, hasSentOffer := True\<rparr>,
                             [\<lparr>msg_roomId = roomId st, msg_fromPeer = clientId st,
                               msg_type = ''answer'', msg_data = answer\<rparr>],
                             False)))))
      else if type env = ''answer'' then
        (case peerConnection st of
           None \<Rightarrow> (st, [], True)
         | Some pc \<Rightarrow>
             (case setRemoteDescription api (data env) pc of
                (pc1, ok) \<Rightarrow> (st\<lparr>peerConnection := Some pc1\<rparr>, [], \<not> ok)))
      else if type env = ''ice-candidate'' then
        (case peerConnection st of
           None \<Rightarrow> (st, [], False)
         | Some pc \<Rightarrow>
             (case addIceCandidate api (data env) pc of
                (pc1, ok) \<Rightarrow> (st\<lparr>peerConnection := Some pc1\<rparr>, [], False)))
      else (st, [], False))"

fun for_each_envelope ::
  "'pc rtc_api \<Rightarrow> 'pc client \<Rightarrow> envelope list \<Rightarrow> 'pc client \<times> message list" where
  "for_each_envelope api st [] = (st, [])"
| "for_each_envelope api st (env # envs) =
     (case handle_envelope api st env of
        (st1, out, threw) \<Rightarrow>
          if threw then (st1, out)
          else (case for_each_envelope api st1 envs of (st2, outs) \<Rightarrow> (st2, out @ outs)))"

definition handleIncomingSignals ::
  "'pc rtc_api \<Rightarrow> 'pc client \<Rightarrow> envelope list \<Rightarrow> 'pc client \<times> message list" where
  "handleIncomingSignals api st envelopes = for_each_envelope api st (rev envelopes)"

text \<open>
  \<open>handleIncomingSignals\<close> above is one call run to its end. The call is asynchronous:
  at every \<open>await\<close> of a call to the connection or of \<open>sendSignal\<close> it stops, and until
  it goes on other calls of \<open>handleIncomingSignals\<close> can run, as the polling loop starts
  one every 500 ms without waiting for the one before. \<open>awaiting\<close> says where a call
  has stopped, with the outcome of what it awaits and the envelopes it has still to
  handle. \<open>Await_createAndSendOffer\<close>: \<open>createAndSendOffer\<close> has returned, having sent
  the offer or caught what was thrown (by a call that failed, or at once with no
  connection), and the call that awaits it has not gone on yet. In the branches for an
  offer and an answer what is thrown leaves the handler and ends the call.
\<close>

datatype awaiting =
    Await_createOffer "jsval option" "envelope list"
  | Await_setLocalDescription_offer jsval bool "envelope list"
  | Await_sendSignal_offer "envelope list"
  | Await_createAndSendOffer "envelope list"
  | Await_setRemoteDescription_offer bool "envelope list"
  | Await_createAnswer "jsval option" "envelope list"
  | Await_setLocalDescription_answer jsval bool "envelope list"
  | Await_sendSignal_answer "envelope list"
  | Await_setRemoteDescription_answer bool "envelope list"
  | Await_addIceCandidate "envelope list"

text \<open>
  The loop from the envelopes still to handle up to the next \<open>await\<close> (\<open>Some\<close>) or to the
  end of the call (\<open>None\<close>), with the messages handed to \<open>sendSignal\<close> on the way.
\<close>

fun run_loop ::
  "'pc rtc_api \<Rightarrow> 'pc client \<Rightarrow> envelope list \<Rightarrow> 'pc client \<times> message list \<times> awaiting option" where
  "run_loop api st [] = (st, [], None)"
| "run_loop api st (env # envs) =
     (if fromPeer env = clientId st then run_loop api st envs
      else if type env = ''join'' then
        (let st1 = st\<lparr>peersInRoom := Set_add (fromPeer env) (peersInRoom st)\<rparr>
         in if \<not> hasSentOffer st1 \<and> length (peersInRoom st1) = 1
               \<and> clientId st1 < hd (peersInRoom st1)
            then
              (case peerConnection st1 of
                 None \<Rightarrow> (st1, [], Some (Await_createAndSendOffer envs))
               | Some pc \<Rightarrow>
                   (case createOffer api pc of
                      (pc1, offer) \<Rightarrow>
                        (st1\<lparr>peerConnection := Some pc1\<rparr>, [],
                         Some (Await_createOffer offer envs))))
            else run_loop api st1 envs)
      else if type env = ''offer'' then
        (case peerConnection st of
           None \<Rightarrow> (st, [], None)
         | Some pc \<Rightarrow>
             (case setRemoteDescription api (data env) pc of
                (pc1, ok) \<Rightarrow>
                  (st\<lparr>peerConnection := Some pc1\<rparr>, [],
                   Some (Await_setRemoteDescription_offer ok envs))))
      else if type env = ''answer'' then
        (case peerConnection st of
           None \<Rightarrow> (st, [], None)
         | Some pc \<Rightarrow>
             (case setRemoteDescription api (data env) pc of
                (pc1, ok) \<Rightarrow>
                  (st\<lparr>peerConnection := Some pc1\<rparr>, [],
                   Some (Await_setRemoteDescription_answer ok envs))))
      else if type env = ''ice-candidate'' then
        (case peerConnection st of
           None \<Rightarrow> run_loop api st envs
         | Some pc \<Rightarrow>
             (case addIceCandidate api (data env) pc of
                (pc1, ok) \<Rightarrow>
                  (st\<lparr>peerConnection := Some pc1\<rparr>, [], Some (Await_addIceCandidate envs))))
      else run_loop api st envs)"

text \<open>
  A stopped call goes on: from the outcome of what it awaited to the next \<open>await\<close> or to
  its end. \<open>hasSentOffer\<close> is set when the call goes on after \<open>createAndSendOffer\<close>, and
  when the answer has been sent.
\<close>

fun resume ::
  "'pc rtc_api \<Rightarrow> 'pc client \<Rightarrow> awaiting \<Rightarrow> 'pc client \<times> message list \<times> awaiting option" where
  "resume api st (Await_createOffer None envs) = (st, [], Some (Await_createAndSendOffer envs))"
| "resume api st (Await_createOffer (Some offer) envs) =
     (case peerConnection st of
        None \<Rightarrow> (st, [], Some (Await_createAndSendOffer envs))
      | Some pc \<Rightarrow>
          (case setLocalDescription api offer pc of
             (pc1, ok) \<Rightarrow>
               (st\<lparr>peerConnection := Some pc1\<rparr>, [],
                Some (Await_setLocalDescription_offer offer ok envs))))"
| "resume api st (Await_setLocalDescription_offer offer ok envs) =
     (if ok
      then (st, [\<lparr>msg_roomId = roomId st, msg_fromPeer = clientId st,
                  msg_type = ''offer'', msg_data = offer\<rparr>],
            Some (Await_sendSignal_offer envs))
      else (st, [], Some (Await_createAndSendOffer envs)))"
| "resume api st (Await_sendSignal_offer envs) = (st, [], Some (Await_createAndSendOffer envs))"
| "resume api st (Await_createAndSendOffer envs) =
     run_loop api (st\<lparr>hasSentOffer := True\<rparr>) envs"
| "resume api st (Await_setRemoteDescription_offer ok envs) =
     (if \<not> ok then (st, [], None)
      else
        (case peerConnection st of
           None \<Rightarrow> (st, [], None)
         | Some pc \<Rightarrow>
             (case createAnswer api pc of
                (pc1, answer) \<Rightarrow>
                  (st\<lparr>peerConnection := Some pc1\<rparr>, [], Some (Await_createAnswer answer envs)))))"
| "resume api st (Await_createAnswer None envs) = (st, [], None)"
| "resume api st (Await_createAnswer (Some answer) envs) =
     (case peerConnection st of
        None \<Rightarrow> (st, [], None)
      | Some pc \<Rightarrow>
          (case setLocalDescription api answer pc of
             (pc1, ok) \<Rightarrow>
               (st\<lparr>peerConnection := Some pc1\<rparr>, [],
                Some (Await_setLocalDescription_answer answer ok envs))))"
| "resume api st (Await_setLocalDescription_answer answer ok envs) =
     (if ok
      then (st, [\<lparr>msg_roomId = roomId st, msg_fromPeer = clientId st,
                  msg_type = ''answer'', msg_data = answer\<rparr>],
            Some (Await_sendSignal_answer envs))
      else (st, [], None))"
| "resume api st (Await_sendSignal_answer envs) = run_loop api (st\<lparr>hasSentOffer := True\<rparr>) envs"
| "resume api st (Await_setRemoteDescription_answer ok envs) =
     (if ok then run_loop api st envs else (st, [], None))"
| "resume api st (Await_addIceCandidate envs) = run_loop api st envs"

text \<open>
  The polling loop and what it starts. \<open>Poll batch\<close>: a poll has come back with \<open>batch\<close>
  and, when the batch is not empty, calls \<open>handleIncomingSignals\<close>, which runs to its
  first \<open>await\<close>. \<open>Resume i\<close>: what the \<open>i\<close>-th call awaits is there and the call goes on
  to its next \<open>await\<close>. The calls are listed in the order they were started, \<open>None\<close> for
  one that has ended. What an ending call throws is caught and logged by the loop.
\<close>

datatype poll_event = Poll "envelope list" | Resume nat

fun run_polls ::
  "'pc rtc_api \<Rightarrow> 'pc client \<Rightarrow> awaiting option list \<Rightarrow> poll_event list \<Rightarrow>
   'pc client \<times> message list \<times> awaiting option list" where
  "run_polls api st calls [] = (st, [], calls)"
| "run_polls api st calls (Poll batch # events) =
     (if length batch = 0 then run_polls api st calls events
      else
        (case run_loop api st (rev batch) of
           (st1, out, call) \<Rightarrow>
             (case run_polls api st1 (calls @ [call]) events of
                (st2, outs, calls2) \<Rightarrow> (st2, out @ outs, calls2))))"
| "run_polls api st calls (Resume i # events) =
     (if i < length calls
      then
        (case calls ! i of
           None \<Rightarrow> run_polls api st calls events
         | Some a \<Rightarrow>
             (case resume api st a of
                (st1, out, call) \<Rightarrow>
                  (case run_polls api st1 (calls[i := call]) events of
                     (st2, outs, calls2) \<Rightarrow> (st2, out @ outs, calls2))))
      else run_polls api st calls events)"

text \<open>The envelopes of all the polls of a sequence of events.\<close>

fun polled :: "poll_event list \<Rightarrow> envelope list" where
  "polled [] = []"
| "polled (Poll batch # events) = batch @ polled events"
| "polled (Resume i # events) = polled events"

definition offers :: "message list \<Rightarrow> message list" where
  "offers out = filter (\<lambda>m. msg_type m = ''offer'') out"

definition join_envelope :: "string \<Rightarrow> int \<Rightarrow> envelope" where
  "join_envelope peer t = \<lparr>fromPeer = peer, type = ''join'', data = JNull, timestamp = t\<rparr>"

text \<open>
  The two requests the client makes: \<open>sendSignal(message)\<close> posts the message as JSON,
  and the polling loop fetches \<open>/api/getSignals?roomId=...\<close>.
\<close>

definition sendSignal_request :: "message \<Rightarrow> request" where
  "sendSignal_request m =
     \<lparr>req_method = ''POST'', query = JObj [],
      body = json_norm (JObj [(''roomId'', JStr (msg_roomId m)),
                              (''fromPeer'', JStr (msg_fromPeer m)),
                              (''type'', JStr (msg_type m)),
                              (''data'', msg_data m)])\<rparr>"

definition getSignals_request :: "string \<Rightarrow> request" where
  "getSignals_request rid =
     \<lparr>req_method = ''GET'', query = JObj [(''roomId'', JStr rid)], body = JUndefined\<rparr>"

text \<open>The signals of a drain response, and the id a message from the server carries.\<close>

definition signals_json :: "jsval list \<Rightarrow> jsval" where
  "signals_json envelopes = JObj [(''signals'', JArr envelopes)]"

fun carried_id :: "delivered \<Rightarrow> string" where
  "carried_id (New_participant socketId) = socketId"
| "carried_id (Offer callerId offer) = callerId"
| "carried_id (Answer responderId answer) = responderId"
| "carried_id (Ice_candidate fromId candidate) = fromId"
| "carried_id (Peer_disconnected socketId) = socketId"

text \<open>
  The client sends no further offer once its latch is set or its connection is gone:
  \<open>createAndSendOffer\<close> is only reached with a falsy \<open>otherPeerId\<close>, and it emits nothing
  without a connection.
\<close>

definition latched :: "'pc live_client \<Rightarrow> bool" where
  "latched c = (truthy_id (lc_otherPeerId c) \<or> lc_peerConnection c = None)"

text \<open>
  What holds of the server after any sequence of events: a connected socket is in the
  room named by its id, and no room lists a socket twice.
\<close>

definition server_inv :: "server \<Rightarrow> bool" where
  "server_inv s = ((\<forall>t \<in> set (connected s). t \<in> set (rooms s t)) \<and> (\<forall>r. distinct (rooms s r)))"

text \<open>
  The join message a client posts once it has its connection (script.js, 4.6), and the
  envelope the push endpoint makes of it at time \<open>t\<close>.
\<close>

definition join_message :: "string \<Rightarrow> string \<Rightarrow> message" where
  "join_message rid peer =
     \<lparr>msg_roomId = rid, msg_fromPeer = peer, msg_type = ''join'', msg_data = JNull\<rparr>"

definition join_json :: "string \<Rightarrow> int \<Rightarrow> jsval" where
  "join_json peer t =
     JObj [(''fromPeer'', JStr peer), (''type'', JStr ''join''), (''data'', JNull),
           (''timestamp'', JNum t)]"

text \<open>
  Of a stopped call: whether it is inside \<open>createAndSendOffer\<close>, and the envelopes it has
  still to handle. A client knows no larger peer when none of the ids in \<open>peersInRoom\<close>
  is above its own, and a call is quiet for it when it is not inside
  \<open>createAndSendOffer\<close> and no envelope it has still to handle comes from a larger id.
\<close>

fun offering :: "awaiting \<Rightarrow> bool" where
  "offering (Await_createOffer offer envs) = True"
| "offering (Await_setLocalDescription_offer offer ok envs) = True"
| "offering (Await_sendSignal_offer envs) = True"
| "offering (Await_createAndSendOffer envs) = True"
| "offering a = False"

fun remaining :: "awaiting \<Rightarrow> envelope list" where
  "remaining (Await_createOffer offer envs) = envs"
| "remaining (Await_setLocalDescription_offer offer ok envs) = envs"
| "remaining (Await_sendSignal_offer envs) = envs"
| "remaining (Await_createAndSendOffer envs) = envs"
| "remaining (Await_setRemoteDescription_offer ok envs) = envs"
| "remaining (Await_createAnswer answer envs) = envs"
| "remaining (Await_setLocalDescription_answer answer ok envs) = envs"
| "remaining (Await_sendSignal_answer envs) = envs"
| "remaining (Await_setRemoteDescription_answer ok envs) = envs"
| "remaining (Await_addIceCandidate envs) = envs"

definition from_no_larger :: "string \<Rightarrow> envelope list \<Rightarrow> bool" where
  "from_no_larger cid envs = list_all (\<lambda>env. \<not> cid < fromPeer env) envs"

definition quiet :: "string \<Rightarrow> awaiting option \<Rightarrow> bool" where
  "quiet cid call =
     (case call of None \<Rightarrow> True | Some a \<Rightarrow> \<not> offering a \<and> from_no_larger cid (remaining a))"

definition knows_no_larger :: "'pc client \<Rightarrow> bool" where
  "knows_no_larger st = list_all (\<lambda>p. \<not> clientId st < p) (peersInRoom st)"

text \<open>
  A call that has stopped, run to its end with nothing in between. Every step leaves
  fewer envelopes to handle, or the same and fewer awaits before the next envelope.
\<close>

fun awaits_left :: "awaiting \<Rightarrow> nat" where
  "awaits_left (Await_createOffer offer envs) = 3"
| "awaits_left (Await_setLocalDescription_offer offer ok envs) = 2"
| "awaits_left (Await_sendSignal_offer envs) = 1"
| "awaits_left (Await_createAndSendOffer envs) = 0"
| "awaits_left (Await_setRemoteDescription_offer ok envs) = 3"
| "awaits_left (Await_createAnswer answer envs) = 2"
| "awaits_left (Await_setLocalDescription_answer answer ok envs) = 1"
| "awaits_left (Await_sendSignal_answer envs) = 0"
| "awaits_left (Await_setRemoteDescription_answer ok envs) = 0"
| "awaits_left (Await_addIceCandidate envs) = 0"

definition rank :: "awaiting \<Rightarrow> nat" where
  "rank a = 4 * length (remaining a) + awaits_left a"

function run_call :: "'pc rtc_api \<Rightarrow> 'pc client \<Rightarrow> awaiting \<Rightarrow> 'pc client \<times> message list" where
  "run_call api st a =
     (case resume api st a of
        (st1, out, call) \<Rightarrow>
          (case call of
             None \<Rightarrow> (st1, out)
           | Some a1 \<Rightarrow> (case run_call api st1 a1 of (st2, outs) \<Rightarrow> (st2, out @ outs))))"
  by pat_completeness auto
termination
proof (relation "measure (\<lambda>(api, st, a). rank a)")
  show "wf (measure (\<lambda>(api :: 'pc rtc_api, st :: 'pc client, a). rank a))" by simp
next
  fix api :: "'pc rtc_api" and st :: "'pc client" and a x y xa ya a1
  assume "(x, y) = resume api st a" and "(xa, ya) = y" and "ya = Some a1"
  then have r: "snd (snd (resume api st a)) = Some a1" by (metis snd_conv)
  have loop_rank: "snd (snd (run_loop api st' envs)) = Some a' \<Longrightarrow> rank a' < 4 * length envs"
    for st' :: "'pc client" and envs a'
  proof (induction envs arbitrary: st')
    case Nil
    then show ?case by simp
  next
    case (Cons env envs)
    have ih: "snd (snd (run_loop api st2 envs)) = Some a' \<Longrightarrow> rank a' < 4 * length (env # envs)"
      for st2
      using Cons.IH [of st2] by simp
    show ?case
      using Cons.prems ih
      by (auto simp: Let_def rank_def case_prod_beta split: if_splits option.splits)
  qed
  have loop: "snd (snd (run_loop api st' (remaining a))) = Some a1 \<Longrightarrow> rank a1 < rank a"
    for st' :: "'pc client"
    using loop_rank [of st' "remaining a" a1] by (simp add: rank_def)
  have "rank a1 < rank a"
  proof (cases a)
    case (Await_createOffer offer envs)
    then show ?thesis
      using r loop
      by (cases offer) (auto simp: rank_def case_prod_beta split: option.splits)
  next
    case (Await_createAnswer answer envs)
    then show ?thesis
      using r by (cases answer) (auto simp: rank_def case_prod_beta split: option.splits)
  qed (use r loop in \<open>auto simp: rank_def case_prod_beta split: option.splits if_splits\<close>)
  then show "((api, x, a1), (api, st, a)) \<in> measure (\<lambda>(api, st, a). rank a)"
    by simp
qed

declare run_call.simps [simp del]

definition prepend :: "message list \<Rightarrow> 'pc client \<times> message list \<Rightarrow> 'pc client \<times> message list" where
  "prepend out r = (fst r, out @ snd r)"

text \<open>A call from where \<open>run_loop\<close> or \<open>resume\<close> has left it to its end.\<close>

definition call_to_end ::
  "'pc rtc_api \<Rightarrow> 'pc client \<times> message list \<times> awaiting option \<Rightarrow> 'pc client \<times> message list" where
  "call_to_end api r =
     (case snd (snd r) of
        None \<Rightarrow> (fst r, fst (snd r))
      | Some a \<Rightarrow> prepend (fst (snd r)) (run_call api (fst r) a))"

section \<open>The push and drain endpoints\<close>

text \<open>What evaluates \<open>JSON_stringify\<close> and \<open>JSON_parse\<close> on a given text.\<close>

lemmas json_eval =
  JSON_parse_def quote_string_def escape_char_def quote_def backslash_def skip_ws_def is_ws_def
  read_number_def is_digit_def nat_of_digits_def with_char_def put_property_def hex_digit_def
  unescape_def hex_val_def char_of_def bit_0 Let_def

text \<open>
  Claim C5. A POST to the push endpoint whose body lacks one of the fields roomId,
  fromPeer, type and data (reading the field gives undefined; a body that is itself
  undefined, null or not an object lacks them all) is answered with status 400 and an
  error message, and the store is returned as it was: nothing is pushed.
\<close>

theorem sendSignal_missing_field_rejected:
  assumes "req_method req = ''POST''"
    and "get_prop (body req) ''roomId'' = JUndefined \<or> get_prop (body req) ''fromPeer'' = JUndefined
       \<or> get_prop (body req) ''type'' = JUndefined \<or> get_prop (body req) ''data'' = JUndefined"
  shows "sendSignal_handler now req store =
           (\<lparr>status = 400,
             json = error_json (if destructure (body req) = None then TypeError_message
                                else ''Missing one of {roomId, fromPeer, type, data}'')\<rparr>, store)"
  using assms
  by (cases "body req") (auto simp: sendSignal_handler_def Let_def)

text \<open>The request of scenario 4: a join message without roomId, with a signal already queued.\<close>

theorem sendSignal_missing_field_rejected_witness:
  "req_method \<lparr>req_method = ''POST'', query = JObj [],
           body = JObj [(''fromPeer'', JStr ''A''), (''type'', JStr ''join''), (''data'', JNull)]\<rparr> = ''POST''
   \<and> get_prop (JObj [(''fromPeer'', JStr ''A''), (''type'', JStr ''join''), (''data'', JNull)]) ''roomId''
       = JUndefined
   \<and> sendSignal_handler 1700000000000
        \<lparr>req_method = ''POST'', query = JObj [],
         body = JObj [(''fromPeer'', JStr ''A''), (''type'', JStr ''join''), (''data'', JNull)]\<rparr>
        (Map.empty(''signals:abcd1234'' \<mapsto> [''queued'']))
       = (\<lparr>status = 400, json = JObj [(''error'', JStr ''Missing one of {roomId, fromPeer, type, data}'')]\<rparr>,
          Map.empty(''signals:abcd1234'' \<mapsto> [''queued'']))"
  using sendSignal_missing_field_rejected
          [of "\<lparr>req_method = ''POST'', query = JObj [],
                 body = JObj [(''fromPeer'', JStr ''A''), (''type'', JStr ''join''), (''data'', JNull)]\<rparr>"
              1700000000000 "Map.empty(''signals:abcd1234'' \<mapsto> [''queued''])"]
  by (simp add: error_json_def)

lemma stored_del: "stored key (del key store) = []"
  by (simp add: stored_def del_def)

lemma getSignals_truthy_roomId:
  assumes "req_method req = ''GET''" and "truthy (get_prop (query req) ''roomId'')"
  shows "getSignals_handler parse req store =
           (Some \<lparr>status = 200,
                  json = signals_json
                      (filter (\<lambda>e. e \<noteq> JNull)
                         (map (parse_or_null parse)
                            (lrange_all parse (''signals:'' @ to_string (get_prop (query req) ''roomId'')) store)))\<rparr>,
            (if stored (''signals:'' @ to_string (get_prop (query req) ''roomId'')) store = []
             then store
             else del (''signals:'' @ to_string (get_prop (query req) ''roomId'')) store))"
  using assms
  by (cases "query req")
     (simp_all add: getSignals_handler_def signals_json_def lrange_all_def Let_def)

lemma reparse_discarded:
  assumes "parse ''null'' = Some JNull"
    and "parse s = None \<or> parse s = Some JNull"
  shows "parse_or_null parse (deserialize parse s) = JNull"
  using assms by (auto simp: parse_or_null_def deserialize_def)

lemma drop_discarded:
  assumes "parse ''null'' = Some JNull"
  shows "filter (\<lambda>e. e \<noteq> JNull) (map (parse_or_null parse) (map (deserialize parse) items))
           = filter (\<lambda>e. e \<noteq> JNull)
               (map (parse_or_null parse)
                  (map (deserialize parse)
                     (filter (\<lambda>s. parse s \<noteq> None \<and> parse s \<noteq> Some JNull) items)))"
proof (induction items)
  case Nil
  show ?case by simp
next
  case (Cons s items)
  show ?case
  proof (cases "parse s = None \<or> parse s = Some JNull")
    case True
    then show ?thesis using Cons reparse_discarded [OF assms True] by auto
  next
    case False
    then show ?thesis using Cons by simp
  qed
qed

text \<open>
  Claim C3 fails on the code. \<open>A\<close> pushes its join into an empty store: the store holds
  the JSON text of the envelope. \<open>lrange\<close> hands the envelope back as an object, and
  \<open>JSON.parse\<close> of an object throws, its string being \<open>[object Object]\<close>; so the drain
  answers with no signals and deletes the queue, and the envelope comes out of no drain.
  And the two commands of a drain are apart: when \<open>B\<close> pushes its join after the drain
  has read the list and before it deletes the key, that join is deleted unread.
\<close>

theorem drain_loses_pushed_envelope:
  "sendSignal_handler 1 (sendSignal_request (join_message ''abcd1234'' ''A'')) Map.empty
     = (\<lparr>status = 200, json = JObj [(''ok'', JBool True)]\<rparr>,
        Map.empty(''signals:abcd1234'' \<mapsto> [JSON_stringify (join_json ''A'' 1)]))
   \<and> lrange_all JSON_parse ''signals:abcd1234''
        (Map.empty(''signals:abcd1234'' \<mapsto> [JSON_stringify (join_json ''A'' 1)]))
       = [join_json ''A'' 1]
   \<and> JSON_parse (to_string (join_json ''A'' 1)) = None
   \<and> getSignals_handler JSON_parse (getSignals_request ''abcd1234'')
        (Map.empty(''signals:abcd1234'' \<mapsto> [JSON_stringify (join_json ''A'' 1)]))
       = (Some \<lparr>status = 200, json = JObj [(''signals'', JArr [])]\<rparr>, Map.empty)
   \<and> (case getSignals_step JSON_parse (Started (getSignals_request ''abcd1234''))
              (Map.empty(''signals:abcd1234'' \<mapsto> [JSON_stringify (join_json ''A'' 1)])) of
         (task1, store1) \<Rightarrow>
           (case sendSignal_handler 2 (sendSignal_request (join_message ''abcd1234'' ''B''))
                   store1 of
              (pushed, store2) \<Rightarrow>
                (case getSignals_step JSON_parse task1 store2 of
                   (task2, store3) \<Rightarrow>
                     (case getSignals_step JSON_parse task2 store3 of
                        (task3, store4) \<Rightarrow>
                          task1 = Awaiting_lrange ''signals:abcd1234'' [join_json ''A'' 1]
                          \<and> status pushed = 200
                          \<and> stored ''signals:abcd1234'' store2
                              = [JSON_stringify (join_json ''B'' 2),
                                 JSON_stringify (join_json ''A'' 1)]
                          \<and> response_of task3
                              = Some \<lparr>status = 200, json = JObj [(''signals'', JArr [])]\<rparr>
                          \<and> store4 = Map.empty))))"
  by (simp add: sendSignal_handler_def sendSignal_request_def join_message_def join_json_def
        lpush_def getSignals_request_def getSignals_handler_def lrange_all_def stored_def
        del_def deserialize_def parse_or_null_def json_eval)

text \<open>The answer of the drain to the one pushed join, taken from the theorem.\<close>

theorem drain_loses_pushed_envelope_witness:
  "fst (getSignals_handler JSON_parse (getSignals_request ''abcd1234'')
         (Map.empty(''signals:abcd1234'' \<mapsto> [JSON_stringify (join_json ''A'' 1)])))
     = Some \<lparr>status = 200, json = JObj [(''signals'', JArr [])]\<rparr>"
  using drain_loses_pushed_envelope by simp

text \<open>
  Claim C10, as amended. \<open>JSON.parse\<close> reads the text \<open>null\<close> as null. The drain answers
  with status 200; a queued entry that is not valid JSON, or is the JSON text \<open>null\<close>,
  adds nothing to the signals: they are what the drain makes of the other entries, in
  the order stored, and never null. The whole queue is removed, the discarded entries
  with it.
\<close>

theorem drain_discards_unparseable:
  assumes "req_method req = ''GET''" and "truthy (get_prop (query req) ''roomId'')"
    and "parse ''null'' = Some JNull"
  shows "fst (getSignals_handler parse req store) =
           Some \<lparr>status = 200,
                 json = signals_json
                     (filter (\<lambda>e. e \<noteq> JNull)
                        (map (parse_or_null parse)
                           (map (deserialize parse)
                              (filter (\<lambda>s. parse s \<noteq> None \<and> parse s \<noteq> Some JNull)
                                 (stored (''signals:'' @ to_string (get_prop (query req) ''roomId''))
                                    store)))))\<rparr>
         \<and> stored (''signals:'' @ to_string (get_prop (query req) ''roomId''))
               (snd (getSignals_handler parse req store)) = []"
  using assms(1) assms(2) assms(3) drop_discarded [of parse]
  by (simp add: getSignals_truthy_roomId lrange_all_def stored_del)

text \<open>A queue of a string that is not JSON, the text \<open>7\<close> and the text \<open>null\<close>.\<close>

theorem drain_discards_unparseable_witness:
  "req_method (getSignals_request ''abcd1234'') = ''GET''
   \<and> truthy (get_prop (query (getSignals_request ''abcd1234'')) ''roomId'')
   \<and> JSON_parse ''null'' = Some JNull
   \<and> JSON_parse ''{oops'' = None
   \<and> JSON_parse ''7'' = Some (JNum 7)
   \<and> fst (getSignals_handler JSON_parse (getSignals_request ''abcd1234'')
            (Map.empty(''signals:abcd1234'' \<mapsto> [''{oops'', ''7'', ''null''])))
       = Some \<lparr>status = 200, json = JObj [(''signals'', JArr [JNum 7])]\<rparr>
   \<and> snd (getSignals_handler JSON_parse (getSignals_request ''abcd1234'')
            (Map.empty(''signals:abcd1234'' \<mapsto> [''{oops'', ''7'', ''null''])))
         ''signals:abcd1234'' = None"
  using drain_discards_unparseable [of "getSignals_request ''abcd1234''" JSON_parse
          "Map.empty(''signals:abcd1234'' \<mapsto> [''{oops'', ''7'', ''null''])"]
  by (simp add: getSignals_request_def getSignals_handler_def lrange_all_def stored_def del_def
        deserialize_def parse_or_null_def signals_json_def json_eval)

text \<open>
  Claim C10 as stated fails: the queued entry \<open>null\<close> parses as JSON, and the drain does
  not return it.
\<close>

theorem drain_drops_json_null_counterexample:
  "JSON_parse ''null'' = Some JNull
   \<and> getSignals_handler JSON_parse (getSignals_request ''abcd1234'')
        (Map.empty(''signals:abcd1234'' \<mapsto> [''null'']))
       = (Some \<lparr>status = 200, json = JObj [(''signals'', JArr [])]\<rparr>, Map.empty)"
  by (simp add: getSignals_request_def getSignals_handler_def lrange_all_def stored_def del_def
        deserialize_def parse_or_null_def json_eval)

section \<open>The polling client\<close>

text \<open>
  Claim C9. A join notification from another peer after which the set of known peers does
  not have exactly one member sends nothing and leaves the latch alone: the election is
  not evaluated, whatever the ids are. A third joiner is such a notification.
\<close>

theorem third_joiner_no_election:
  assumes "fromPeer env \<noteq> clientId st" and "type env = ''join''"
    and "length (Set_add (fromPeer env) (peersInRoom st)) \<noteq> 1"
  shows "handle_envelope api st env =
           (st\<lparr>peersInRoom := Set_add (fromPeer env) (peersInRoom st)\<rparr>, [], False)"
  using assms by (simp add: handle_envelope_def Let_def)

text \<open>
  Peer \<open>m\<close> knows \<open>b\<close> and, being the larger of the two, has sent no offer; then \<open>z\<close>
  joins as the third, and \<open>m\<close> is smaller than \<open>z\<close>.
\<close>

theorem third_joiner_no_election_witness:
  "fromPeer (join_envelope ''z'' 3) \<noteq> clientId ((init_client ''abcd1234'' ''m'' (0::nat))\<lparr>peersInRoom := [''b'']\<rparr>)
   \<and> type (join_envelope ''z'' 3) = ''join''
   \<and> length (Set_add (fromPeer (join_envelope ''z'' 3)) [''b'']) \<noteq> 1
   \<and> ''m'' < ''z''
   \<and> handle_envelope rtc_ok ((init_client ''abcd1234'' ''m'' 0)\<lparr>peersInRoom := [''b'']\<rparr>)
        (join_envelope ''z'' 3)
       = ((init_client ''abcd1234'' ''m'' 0)\<lparr>peersInRoom := [''b'', ''z'']\<rparr>, [], False)"
  using third_joiner_no_election
          [of "join_envelope ''z'' 3" "(init_client ''abcd1234'' ''m'' (0::nat))\<lparr>peersInRoom := [''b'']\<rparr>"
              rtc_ok]
  by (simp add: join_envelope_def init_client_def Set_add_def)

subsection \<open>One call, and calls that overlap\<close>

lemma Set_add_set: "set (Set_add x xs) = insert x (set xs)"
  by (auto simp: Set_add_def)

lemma Set_add_distinct: "distinct xs \<Longrightarrow> distinct (Set_add x xs)"
  by (simp add: Set_add_def)

lemma Set_add_member: "x \<in> set xs \<Longrightarrow> Set_add x xs = xs"
  by (simp add: Set_add_def)

text \<open>
  \<open>handleIncomingSignals\<close> is one call run to its end with nothing in between: from its
  start to the first \<open>await\<close>, and on from every \<open>await\<close>.
\<close>

lemma prepend_Nil: "prepend [] r = r"
  by (simp add: prepend_def)

lemma call_to_end_simps:
  "call_to_end api (st, out, None) = (st, out)"
  "call_to_end api (st, out, Some a) = prepend out (run_call api st a)"
  by (simp_all add: call_to_end_def)

lemma run_call_resume: "run_call api st a = call_to_end api (resume api st a)"
  by (subst run_call.simps)
     (simp add: call_to_end_def prepend_def case_prod_beta split: option.split)

lemma for_each_envelope_Cons:
  "for_each_envelope api st (env # envs) =
     (if snd (snd (handle_envelope api st env))
      then (fst (handle_envelope api st env), fst (snd (handle_envelope api st env)))
      else prepend (fst (snd (handle_envelope api st env)))
             (for_each_envelope api (fst (handle_envelope api st env)) envs))"
  by (simp add: prepend_def case_prod_beta)

lemma call_to_end_loop:
  "call_to_end api (run_loop api st envs) = for_each_envelope api st envs"
proof (induction envs arbitrary: st)
  case Nil
  show ?case by (simp add: call_to_end_def)
next
  case (Cons env envs)
  note ih = Cons.IH
  have returned: "run_call api st' (Await_createAndSendOffer envs)
      = for_each_envelope api (st'\<lparr>hasSentOffer := True\<rparr>) envs" for st'
    by (simp add: run_call_resume ih)
  have send_offer: "run_call api st' (Await_sendSignal_offer envs)
      = for_each_envelope api (st'\<lparr>hasSentOffer := True\<rparr>) envs" for st'
    by (subst run_call_resume) (simp add: call_to_end_simps returned prepend_Nil)
  have local_offer: "run_call api st' (Await_setLocalDescription_offer offer ok envs)
      = (if ok
         then prepend [\<lparr>msg_roomId = roomId st', msg_fromPeer = clientId st',
                         msg_type = ''offer'', msg_data = offer\<rparr>]
                (for_each_envelope api (st'\<lparr>hasSentOffer := True\<rparr>) envs)
         else for_each_envelope api (st'\<lparr>hasSentOffer := True\<rparr>) envs)" for st' offer ok
    by (subst run_call_resume) (simp add: call_to_end_simps send_offer returned prepend_Nil)
  have create_offer: "run_call api st' (Await_createOffer r envs)
      = (case r of
           None \<Rightarrow> for_each_envelope api (st'\<lparr>hasSentOffer := True\<rparr>) envs
         | Some offer \<Rightarrow>
             (case peerConnection st' of
                None \<Rightarrow> for_each_envelope api (st'\<lparr>hasSentOffer := True\<rparr>) envs
              | Some pc \<Rightarrow>
                  run_call api (st'\<lparr>peerConnection := Some (fst (setLocalDescription api offer pc))\<rparr>)
                    (Await_setLocalDescription_offer offer (snd (setLocalDescription api offer pc)) envs)))"
    for st' r
    by (subst run_call_resume)
       (simp add: call_to_end_simps returned prepend_Nil case_prod_beta split: option.split)
  have send_answer: "run_call api st' (Await_sendSignal_answer envs)
      = for_each_envelope api (st'\<lparr>hasSentOffer := True\<rparr>) envs" for st'
    by (simp add: run_call_resume ih)
  have local_answer: "run_call api st' (Await_setLocalDescription_answer answer ok envs)
      = (if ok
         then prepend [\<lparr>msg_roomId = roomId st', msg_fromPeer = clientId st',
                         msg_type = ''answer'', msg_data = answer\<rparr>]
                (for_each_envelope api (st'\<lparr>hasSentOffer := True\<rparr>) envs)
         else (st', []))" for st' answer ok
    by (subst run_call_resume) (simp add: call_to_end_simps send_answer)
  have create_answer: "run_call api st' (Await_createAnswer r envs)
      = (case r of
           None \<Rightarrow> (st', [])
         | Some answer \<Rightarrow>
             (case peerConnection st' of
                None \<Rightarrow> (st', [])
              | Some pc \<Rightarrow>
                  run_call api (st'\<lparr>peerConnection := Some (fst (setLocalDescription api answer pc))\<rparr>)
                    (Await_setLocalDescription_answer answer (snd (setLocalDescription api answer pc)) envs)))"
    for st' r
    by (subst run_call_resume)
       (simp add: call_to_end_simps prepend_Nil case_prod_beta split: option.split)
  have remote_offer: "run_call api st' (Await_setRemoteDescription_offer ok envs)
      = (if \<not> ok then (st', [])
         else (case peerConnection st' of
                 None \<Rightarrow> (st', [])
               | Some pc \<Rightarrow>
                   run_call api (st'\<lparr>peerConnection := Some (fst (createAnswer api pc))\<rparr>)
                     (Await_createAnswer (snd (createAnswer api pc)) envs)))" for st' ok
    by (subst run_call_resume)
       (simp add: call_to_end_simps prepend_Nil case_prod_beta split: option.split)
  have remote_answer: "run_call api st' (Await_setRemoteDescription_answer ok envs)
      = (if ok then for_each_envelope api st' envs else (st', []))" for st' ok
    by (simp add: run_call_resume ih call_to_end_simps)
  have add_ice: "run_call api st' (Await_addIceCandidate envs) = for_each_envelope api st' envs" for st'
    by (simp add: run_call_resume ih)
  consider (own) "fromPeer env = clientId st"
    | (join) "fromPeer env \<noteq> clientId st" "type env = ''join''"
    | (offer) "fromPeer env \<noteq> clientId st" "type env = ''offer''"
    | (answer) "fromPeer env \<noteq> clientId st" "type env = ''answer''"
    | (ice) "fromPeer env \<noteq> clientId st" "type env = ''ice-candidate''"
    | (other) "fromPeer env \<noteq> clientId st" "type env \<noteq> ''join''" "type env \<noteq> ''offer''"
        "type env \<noteq> ''answer''" "type env \<noteq> ''ice-candidate''"
    by blast
  then show ?case
  proof cases
    case own
    then show ?thesis
      by (simp add: ih for_each_envelope_Cons handle_envelope_def prepend_Nil)
  next
    case join
    then show ?thesis
      by (simp add: ih for_each_envelope_Cons handle_envelope_def createAndSendOffer_def
            call_to_end_simps create_offer local_offer returned prepend_Nil prepend_def Let_def
            case_prod_beta
          split: option.split bool.split)
  next
    case offer
    then show ?thesis
      by (simp add: for_each_envelope_Cons handle_envelope_def call_to_end_simps
            remote_offer create_answer local_answer prepend_Nil prepend_def case_prod_beta
          split: option.split bool.split)
  next
    case answer
    then show ?thesis
      by (simp add: for_each_envelope_Cons handle_envelope_def call_to_end_simps
            remote_answer prepend_Nil prepend_def case_prod_beta
          split: option.split bool.split)
  next
    case ice
    then show ?thesis
      by (simp add: ih for_each_envelope_Cons handle_envelope_def call_to_end_simps
            add_ice prepend_Nil prepend_def case_prod_beta
          split: option.split bool.split)
  next
    case other
    then show ?thesis
      by (simp add: ih for_each_envelope_Cons handle_envelope_def prepend_Nil)
  qed
qed

lemma handleIncomingSignals_one_call:
  "handleIncomingSignals api st envelopes = call_to_end api (run_loop api st (rev envelopes))"
  by (simp add: handleIncomingSignals_def call_to_end_loop)

text \<open>Run to its end, a call sends at most one offer, and none when the latch is set.\<close>

lemma offers_append: "offers (xs @ ys) = offers xs @ offers ys"
  by (simp add: offers_def)

lemma createAndSendOffer_offers:
  "length (offers (snd (createAndSendOffer api st other))) \<le> 1"
  by (simp add: createAndSendOffer_def offers_def split: option.split prod.split bool.split)

lemma handle_envelope_latched:
  assumes "hasSentOffer st"
  shows "hasSentOffer (fst (handle_envelope api st env))
         \<and> offers (fst (snd (handle_envelope api st env))) = []"
  using assms
  by (simp add: handle_envelope_def offers_def Let_def split: option.split prod.split bool.split)

lemma handle_envelope_offers:
  "length (offers (fst (snd (handle_envelope api st env)))) \<le> 1
   \<and> (offers (fst (snd (handle_envelope api st env))) \<noteq> []
        \<longrightarrow> hasSentOffer (fst (handle_envelope api st env)))"
  using createAndSendOffer_offers [of api "st\<lparr>peersInRoom := Set_add (fromPeer env) (peersInRoom st)\<rparr>"
           "hd (Set_add (fromPeer env) (peersInRoom st))"]
  by (simp add: handle_envelope_def Let_def case_prod_beta offers_def
           split: option.split bool.split)

lemma for_each_envelope_offers:
  "length (offers (snd (for_each_envelope api st envs))) \<le> 1
   \<and> (hasSentOffer st \<longrightarrow>
         offers (snd (for_each_envelope api st envs)) = []
         \<and> hasSentOffer (fst (for_each_envelope api st envs)))
   \<and> (offers (snd (for_each_envelope api st envs)) \<noteq> []
        \<longrightarrow> hasSentOffer (fst (for_each_envelope api st envs)))"
proof (induction envs arbitrary: st)
  case Nil
  show ?case by (simp add: offers_def)
next
  case (Cons env envs)
  obtain st1 out threw where h: "handle_envelope api st env = (st1, out, threw)"
    by (cases "handle_envelope api st env") auto
  have one: "length (offers out) \<le> 1" and set1: "offers out \<noteq> [] \<longrightarrow> hasSentOffer st1"
    using handle_envelope_offers [of api st env] h by simp_all
  have latched: "hasSentOffer st \<longrightarrow> hasSentOffer st1 \<and> offers out = []"
    using handle_envelope_latched [of st api env] h by simp
  show ?case
  proof (cases threw)
    case True
    then show ?thesis using h one set1 latched by simp
  next
    case False
    note ih = Cons.IH [of st1]
    obtain st2 outs where r: "for_each_envelope api st1 envs = (st2, outs)"
      by (cases "for_each_envelope api st1 envs") auto
    show ?thesis
    proof (cases "offers out = []")
      case True
      then show ?thesis using h r False ih latched by (simp add: offers_append)
    next
      case nonempty: False
      then have "hasSentOffer st1" using set1 by simp
      then have "offers outs = []" and "hasSentOffer st2" using ih r by simp_all
      then show ?thesis using h r False one nonempty latched by (simp add: offers_append)
    qed
  qed
qed

text \<open>
  Claim C2 fails on the code in the polling binding. \<open>a\<close> has just started polling and
  two polls bring it the same join of \<open>b\<close>, the second while the call for the first
  awaits \<open>createOffer\<close>: \<open>hasSentOffer\<close> is set only when \<open>createAndSendOffer\<close> has
  returned, so the second call passes the test of the latch as well, and \<open>a\<close> sends two
  offers. When the first call has ended before the second poll, it sends one.
\<close>

theorem overlapping_polls_send_two_offers:
  "run_polls rtc_ok (init_client ''abcd1234'' ''a'' 0) []
     [Poll [join_envelope ''b'' 1], Poll [join_envelope ''b'' 1],
      Resume 0, Resume 0, Resume 0, Resume 0, Resume 1, Resume 1, Resume 1, Resume 1]
     = (\<lparr>roomId = ''abcd1234'', clientId = ''a'', peerConnection = Some 4,
         peersInRoom = [''b''], hasSentOffer = True\<rparr>,
        [\<lparr>msg_roomId = ''abcd1234'', msg_fromPeer = ''a'', msg_type = ''offer'',
          msg_data = JObj [(''type'', JStr ''offer'')]\<rparr>,
         \<lparr>msg_roomId = ''abcd1234'', msg_fromPeer = ''a'', msg_type = ''offer'',
          msg_data = JObj [(''type'', JStr ''offer'')]\<rparr>],
        [None, None])
   \<and> run_polls rtc_ok (init_client ''abcd1234'' ''a'' 0) []
     [Poll [join_envelope ''b'' 1], Resume 0, Resume 0, Resume 0, Resume 0,
      Poll [join_envelope ''b'' 1], Resume 1, Resume 1, Resume 1, Resume 1]
     = (\<lparr>roomId = ''abcd1234'', clientId = ''a'', peerConnection = Some 2,
         peersInRoom = [''b''], hasSentOffer = True\<rparr>,
        [\<lparr>msg_roomId = ''abcd1234'', msg_fromPeer = ''a'', msg_type = ''offer'',
          msg_data = JObj [(''type'', JStr ''offer'')]\<rparr>],
        [None, None])"
  by (simp add: init_client_def join_envelope_def rtc_ok_def Set_add_def Let_def)

text \<open>The offers of the overlapping polls, taken from the theorem.\<close>

theorem overlapping_polls_send_two_offers_witness:
  "length (offers (fst (snd (run_polls rtc_ok (init_client ''abcd1234'' ''a'' 0) []
     [Poll [join_envelope ''b'' 1], Poll [join_envelope ''b'' 1],
      Resume 0, Resume 0, Resume 0, Resume 0, Resume 1, Resume 1, Resume 1, Resume 1])))) = 2"
  using overlapping_polls_send_two_offers by (simp add: offers_def)

section \<open>The live-channel client\<close>

lemma live_createAndSendOffer_shape:
  "length (filter is_offer_effect (snd (live_createAndSendOffer api c))) \<le> 1
   \<and> lc_otherPeerId (fst (live_createAndSendOffer api c)) = lc_otherPeerId c
   \<and> (lc_peerConnection c = None \<longrightarrow> live_createAndSendOffer api c = (c, []))"
  by (simp add: live_createAndSendOffer_def is_offer_effect_def
           split: option.split prod.split bool.split)

lemma new_participant_latched:
  "truthy_id (lc_otherPeerId c) \<Longrightarrow> on_new_participant api c socketId = (c, [])"
  by (simp add: on_new_participant_def)

lemma live_step_latched:
  assumes "latched c" and "carried_id m \<noteq> []"
  shows "latched (fst (live_client_step api c m))
         \<and> filter is_offer_effect (snd (live_client_step api c m)) = []"
proof (cases m)
  case (New_participant socketId)
  then show ?thesis
    using assms live_createAndSendOffer_shape [of api "c\<lparr>lc_otherPeerId := Some socketId\<rparr>"]
    by (auto simp: latched_def on_new_participant_def truthy_id_def)
next
  case (Offer callerId offer)
  then show ?thesis
    using assms
    by (simp add: latched_def on_offer_def truthy_id_def is_offer_effect_def Let_def
             split: option.split prod.split bool.split)
next
  case (Answer responderId answer)
  then show ?thesis
    using assms
    by (auto simp: latched_def on_answer_def split: option.split prod.split)
next
  case (Ice_candidate fromId candidate)
  then show ?thesis
    using assms
    by (auto simp: latched_def on_ice_candidate_def split: option.split prod.split)
next
  case (Peer_disconnected socketId)
  then show ?thesis
    using assms
    by (auto simp: latched_def on_peer_disconnected_def is_offer_effect_def split: option.split)
qed

lemma live_step_offers:
  assumes "carried_id m \<noteq> []"
  shows "length (filter is_offer_effect (snd (live_client_step api c m))) \<le> 1
         \<and> (filter is_offer_effect (snd (live_client_step api c m)) \<noteq> []
              \<longrightarrow> latched (fst (live_client_step api c m)))"
proof (cases m)
  case (New_participant socketId)
  then show ?thesis
    using assms live_createAndSendOffer_shape [of api "c\<lparr>lc_otherPeerId := Some socketId\<rparr>"]
    by (auto simp: latched_def on_new_participant_def truthy_id_def)
next
  case (Offer callerId offer)
  then show ?thesis
    by (simp add: on_offer_def is_offer_effect_def Let_def
             split: option.split prod.split bool.split)
next
  case (Answer responderId answer)
  then show ?thesis
    by (simp add: on_answer_def split: option.split prod.split)
next
  case (Ice_candidate fromId candidate)
  then show ?thesis
    by (simp add: on_ice_candidate_def split: option.split prod.split)
next
  case (Peer_disconnected socketId)
  then show ?thesis
    by (simp add: on_peer_disconnected_def is_offer_effect_def split: option.split)
qed

lemma live_run_offers:
  assumes "\<forall>m \<in> set ms. carried_id m \<noteq> []"
  shows "length (filter is_offer_effect (snd (live_client_run api c ms))) \<le> 1
         \<and> (latched c \<longrightarrow> filter is_offer_effect (snd (live_client_run api c ms)) = [])"
  using assms
proof (induction ms arbitrary: c)
  case Nil
  show ?case by simp
next
  case (Cons m ms)
  obtain c1 out where h: "live_client_step api c m = (c1, out)"
    by (cases "live_client_step api c m") auto
  obtain c2 outs where r: "live_client_run api c1 ms = (c2, outs)"
    by (cases "live_client_run api c1 ms") auto
  have m: "carried_id m \<noteq> []" and ms: "\<forall>m \<in> set ms. carried_id m \<noteq> []"
    using Cons.prems by simp_all
  note ih = Cons.IH [OF ms, of c1]
  have one: "length (filter is_offer_effect out) \<le> 1"
    and set1: "filter is_offer_effect out \<noteq> [] \<longrightarrow> latched c1"
    using live_step_offers [OF m, of api c] h by simp_all
  have keep: "latched c \<longrightarrow> latched c1 \<and> filter is_offer_effect out = []"
    using live_step_latched [OF _ m, of c api] h by auto
  show ?case
  proof (cases "filter is_offer_effect out = []")
    case True
    then show ?thesis using h r ih keep by simp
  next
    case False
    then have "latched c1" using set1 by simp
    then have "filter is_offer_effect outs = []" using ih r by simp
    then show ?thesis using h r one False keep by simp
  qed
qed

text \<open>
  The live-channel client sets \<open>otherPeerId\<close> before it awaits anything: once it is set,
  \<open>new-participant\<close> does nothing, and over any sequence of messages with socket ids
  that are not empty at most one offer is emitted.
\<close>

lemma live_at_most_one_offer:
  "(truthy_id (lc_otherPeerId c') \<longrightarrow> on_new_participant api c' socketId = (c', []))
   \<and> ((\<forall>m \<in> set ms. carried_id m \<noteq> []) \<longrightarrow>
         length (filter is_offer_effect (snd (live_client_run api c ms))) \<le> 1)"
  using live_run_offers [of ms api c] new_participant_latched [of c' api socketId]
  by blast

section \<open>Who sends the offer\<close>

text \<open>
  A polling client that knows no larger peer, whose stopped calls are quiet and whose
  polls bring nothing from a larger id sends no offer, however its calls overlap.
\<close>

lemma hd_single: "length xs = 1 \<Longrightarrow> hd xs \<in> set xs"
  by (cases xs) auto

lemma run_loop_quiet:
  assumes "knows_no_larger st" and "from_no_larger (clientId st) envs"
  shows "clientId (fst (run_loop api st envs)) = clientId st
       \<and> knows_no_larger (fst (run_loop api st envs))
       \<and> offers (fst (snd (run_loop api st envs))) = []
       \<and> quiet (clientId st) (snd (snd (run_loop api st envs)))"
  using assms
proof (induction envs arbitrary: st)
  case Nil
  then show ?case by (simp add: offers_def quiet_def)
next
  case (Cons env envs)
  have envs: "from_no_larger (clientId st) envs" and env: "\<not> clientId st < fromPeer env"
    using Cons.prems(2) by (simp_all add: from_no_larger_def)
  let ?st1 = "st\<lparr>peersInRoom := Set_add (fromPeer env) (peersInRoom st)\<rparr>"
  have st1: "knows_no_larger ?st1"
    using Cons.prems(1) env by (simp add: knows_no_larger_def list_all_iff Set_add_set)
  have no_election: "\<not> (length (peersInRoom ?st1) = 1 \<and> clientId ?st1 < hd (peersInRoom ?st1))"
    using st1 hd_single [of "peersInRoom ?st1"] by (auto simp: knows_no_larger_def list_all_iff)
  have ih: "clientId (fst (run_loop api st' envs)) = clientId st
       \<and> knows_no_larger (fst (run_loop api st' envs))
       \<and> offers (fst (snd (run_loop api st' envs))) = []
       \<and> quiet (clientId st) (snd (snd (run_loop api st' envs)))"
    if "knows_no_larger st'" and "clientId st' = clientId st" for st'
    using Cons.IH [of st'] that envs by simp
  have pc: "knows_no_larger (st\<lparr>peerConnection := Some pc1\<rparr>)" for pc1
    using Cons.prems(1) by (simp add: knows_no_larger_def)
  consider (own) "fromPeer env = clientId st"
    | (join) "fromPeer env \<noteq> clientId st" "type env = ''join''"
    | (offer) "fromPeer env \<noteq> clientId st" "type env = ''offer''"
    | (answer) "fromPeer env \<noteq> clientId st" "type env = ''answer''"
    | (ice) "fromPeer env \<noteq> clientId st" "type env = ''ice-candidate''"
    | (other) "fromPeer env \<noteq> clientId st" "type env \<noteq> ''join''" "type env \<noteq> ''offer''"
        "type env \<noteq> ''answer''" "type env \<noteq> ''ice-candidate''"
    by blast
  then show ?case
  proof cases
    case own
    then show ?thesis using ih [of st] Cons.prems(1) by simp
  next
    case join
    have "run_loop api st (env # envs) = run_loop api ?st1 envs"
      using join no_election by (auto simp: Let_def)
    then show ?thesis using ih [of ?st1] st1 by simp
  next
    case offer
    then show ?thesis
      using envs pc Cons.prems(1)
      by (simp add: offers_def quiet_def case_prod_beta split: option.split)
  next
    case answer
    then show ?thesis
      using envs pc Cons.prems(1)
      by (simp add: offers_def quiet_def case_prod_beta split: option.split)
  next
    case ice
    then show ?thesis
      using envs pc ih [of st] Cons.prems(1)
      by (auto simp: offers_def quiet_def case_prod_beta split: option.splits)
  next
    case other
    then show ?thesis using ih [of st] Cons.prems(1) by simp
  qed
qed

lemma resume_quiet:
  assumes "knows_no_larger st" and "quiet (clientId st) (Some a)"
  shows "clientId (fst (resume api st a)) = clientId st
       \<and> knows_no_larger (fst (resume api st a))
       \<and> offers (fst (snd (resume api st a))) = []
       \<and> quiet (clientId st) (snd (snd (resume api st a)))"
proof -
  have envs: "from_no_larger (clientId st) (remaining a)" and quiet: "\<not> offering a"
    using assms(2) by (simp_all add: quiet_def)
  have loop: "clientId (fst (run_loop api st' (remaining a))) = clientId st
       \<and> knows_no_larger (fst (run_loop api st' (remaining a)))
       \<and> offers (fst (snd (run_loop api st' (remaining a)))) = []
       \<and> quiet (clientId st) (snd (snd (run_loop api st' (remaining a))))"
    if "knows_no_larger st'" and "clientId st' = clientId st" for st'
    using run_loop_quiet [of st' "remaining a" api] that envs by simp
  have flag: "knows_no_larger (st\<lparr>hasSentOffer := True\<rparr>)"
    and pc: "knows_no_larger (st\<lparr>peerConnection := Some pc1\<rparr>)" for pc1
    using assms(1) by (simp_all add: knows_no_larger_def)
  show ?thesis
  proof (cases a)
    case (Await_createAnswer answer envs')
    then show ?thesis
      using assms(1) envs pc
      by (cases answer)
         (simp_all add: offers_def quiet_def case_prod_beta split: option.split)
  qed (use quiet assms(1) envs loop [of st] loop [of "st\<lparr>hasSentOffer := True\<rparr>"] flag pc in
        \<open>simp_all add: offers_def quiet_def case_prod_beta split: option.split\<close>)
qed

lemma run_polls_quiet:
  assumes "knows_no_larger st" and "list_all (quiet (clientId st)) calls"
    and "from_no_larger (clientId st) (polled events)"
  shows "offers (fst (snd (run_polls api st calls events))) = []"
  using assms
proof (induction events arbitrary: st calls)
  case Nil
  show ?case by (simp add: offers_def)
next
  case (Cons e events)
  show ?case
  proof (cases e)
    case (Poll batch)
    have batch: "from_no_larger (clientId st) (rev batch)"
      and rest: "from_no_larger (clientId st) (polled events)"
      using Cons.prems(3) Poll by (simp_all add: from_no_larger_def)
    show ?thesis
    proof (cases "length batch = 0")
      case True
      then show ?thesis using Poll Cons.IH [OF Cons.prems(1) Cons.prems(2) rest] by simp
    next
      case False
      obtain st1 out call where l: "run_loop api st (rev batch) = (st1, out, call)"
        by (cases "run_loop api st (rev batch)") auto
      have q: "clientId st1 = clientId st" "knows_no_larger st1" "offers out = []"
        "quiet (clientId st) call"
        using run_loop_quiet [OF Cons.prems(1) batch, of api] l by simp_all
      have "offers (fst (snd (run_polls api st1 (calls @ [call]) events))) = []"
        using Cons.IH [of st1 "calls @ [call]"] q Cons.prems(2) rest by simp
      then show ?thesis
        using Poll False l q(3) by (simp add: case_prod_beta offers_def)
    qed
  next
    case (Resume i)
    have rest: "from_no_larger (clientId st) (polled events)"
      using Cons.prems(3) Resume by simp
    note same = Cons.IH [OF Cons.prems(1) Cons.prems(2) rest]
    show ?thesis
    proof (cases "i < length calls")
      case False
      then show ?thesis using Resume same by simp
    next
      case True
      show ?thesis
      proof (cases "calls ! i")
        case None
        then show ?thesis using Resume True same by simp
      next
        case (Some a)
        have qa: "quiet (clientId st) (Some a)"
          using Cons.prems(2) True Some by (auto simp: list_all_length)
        obtain st1 out call where r: "resume api st a = (st1, out, call)"
          by (cases "resume api st a") auto
        have q: "clientId st1 = clientId st" "knows_no_larger st1" "offers out = []"
          "quiet (clientId st) call"
          using resume_quiet [OF Cons.prems(1) qa, of api] r by simp_all
        have "list_all (quiet (clientId st)) (calls[i := call])"
          using Cons.prems(2) q(4) by (auto simp: list_all_iff dest!: set_update_subset_insert [THEN subsetD])
        then have "offers (fst (snd (run_polls api st1 (calls[i := call]) events))) = []"
          using Cons.IH [of st1 "calls[i := call]"] q rest by simp
        then show ?thesis
          using Resume True Some r q(3) by (simp add: case_prod_beta offers_def)
      qed
    qed
  qed
qed

lemma first_join_election:
  assumes "a \<noteq> b"
    and "createOffer api pc = (pc1, Some offer)" and "setLocalDescription api offer pc1 = (pc2, True)"
  shows "snd (handleIncomingSignals api (init_client rid a pc) [join_envelope b t])
           = (if a < b
              then [\<lparr>msg_roomId = rid, msg_fromPeer = a, msg_type = ''offer'', msg_data = offer\<rparr>]
              else [])"
  using assms
  by (simp add: handleIncomingSignals_def handle_envelope_def join_envelope_def init_client_def
        Set_add_def createAndSendOffer_def Let_def)

lemma two_join_deliveries:
  assumes "first \<noteq> second" and "room \<noteq> first" and "room \<noteq> second"
  shows "snd (run_server [Connection first, Connection second,
                          Message first (Join_room room), Message second (Join_room room)]
                 init_server)
           = [(first, New_participant second)]"
  using assms
  by (simp add: init_server_def Set_add_def socket_to_def emit_to_def Let_def)

lemma two_join_first_offers:
  assumes "first \<noteq> second" and "room \<noteq> first" and "room \<noteq> second"
    and "createOffer api pc = (pc1, Some offer)" and "setLocalDescription api offer pc1 = (pc2, True)"
  shows "two_join api pc room first second = [(first, Emit (Emit_offer (Some second) offer))]"
  unfolding two_join_def two_join_deliveries [OF assms(1) assms(2) assms(3)]
  using assms(4) assms(5)
  by (simp add: on_new_participant_def init_live_client_def truthy_id_def
        live_createAndSendOffer_def)

text \<open>
  Claim C1, as amended. Two peers, \<open>a\<close> with the lexicographically smaller id and \<open>b\<close>
  with the larger. Polling binding: \<open>b\<close>, from the start of its polling, sends no offer,
  whatever its polls bring it from the two and however its calls overlap; and \<open>a\<close>, when
  it has just started polling and reads the join of \<open>b\<close>, sends the offer. So only the
  smaller can be elected; that it reads the other's join is not part of the claim.
  Live-channel binding: when the two join a room (whose name is not one of their ids)
  one after the other, in either order, exactly one offer is emitted, by the one that
  joined first, whichever id is smaller. Where an offer is promised, the connection's
  \<open>createOffer\<close> and \<open>setLocalDescription\<close> succeed.
\<close>

theorem offerer_election:
  assumes "a < b" and "room \<noteq> a" and "room \<noteq> b"
    and "createOffer api pc = (pc1, Some offer)" and "setLocalDescription api offer pc1 = (pc2, True)"
    and "list_all (\<lambda>env. fromPeer env = a \<or> fromPeer env = b) (polled events)"
  shows "offers (fst (snd (run_polls api (init_client rid b pc) [] events))) = []
       \<and> snd (handleIncomingSignals api (init_client rid a pc) [join_envelope b t])
           = [\<lparr>msg_roomId = rid, msg_fromPeer = a, msg_type = ''offer'', msg_data = offer\<rparr>]
       \<and> two_join api pc room a b = [(a, Emit (Emit_offer (Some b) offer))]
       \<and> two_join api pc room b a = [(b, Emit (Emit_offer (Some a) offer))]"
proof -
  have ab: "a \<noteq> b" and ba: "\<not> b < a" using assms(1) by auto
  have "from_no_larger (clientId (init_client rid b pc)) (polled events)"
    using assms(6) ba by (auto simp: from_no_larger_def init_client_def list_all_iff)
  moreover have "knows_no_larger (init_client rid b pc)"
    by (simp add: knows_no_larger_def init_client_def)
  ultimately have "offers (fst (snd (run_polls api (init_client rid b pc) [] events))) = []"
    using run_polls_quiet [of "init_client rid b pc" "[]" events api] by simp
  then show ?thesis
    using assms(1) first_join_election [OF ab assms(4) assms(5), of rid t]
      two_join_first_offers [OF ab assms(2) assms(3) assms(4) assms(5)]
      two_join_first_offers [OF ab [symmetric] assms(3) assms(2) assms(4) assms(5)]
    by simp
qed

text \<open>
  \<open>a1\<close> and \<open>b2\<close> in room \<open>abcd1234\<close>; the polls of \<open>b2\<close> bring the join of \<open>a1\<close> twice,
  and its own.
\<close>

theorem offerer_election_witness:
  "''a1'' < ''b2'' \<and> ''abcd1234'' \<noteq> ''a1'' \<and> ''abcd1234'' \<noteq> ''b2''
   \<and> createOffer rtc_ok 0 = (1, Some (JObj [(''type'', JStr ''offer'')]))
   \<and> setLocalDescription rtc_ok (JObj [(''type'', JStr ''offer'')]) 1 = (2, True)
   \<and> list_all (\<lambda>env. fromPeer env = ''a1'' \<or> fromPeer env = ''b2'')
        (polled [Poll [join_envelope ''b2'' 5, join_envelope ''a1'' 4],
                 Poll [join_envelope ''a1'' 4]])
   \<and> run_polls rtc_ok (init_client ''abcd1234'' ''b2'' 0) []
        [Poll [join_envelope ''b2'' 5, join_envelope ''a1'' 4], Poll [join_envelope ''a1'' 4]]
       = (\<lparr>roomId = ''abcd1234'', clientId = ''b2'', peerConnection = Some 0,
           peersInRoom = [''a1''], hasSentOffer = False\<rparr>, [], [None, None])
   \<and> snd (handleIncomingSignals rtc_ok (init_client ''abcd1234'' ''a1'' 0) [join_envelope ''b2'' 5])
       = [\<lparr>msg_roomId = ''abcd1234'', msg_fromPeer = ''a1'', msg_type = ''offer'',
           msg_data = JObj [(''type'', JStr ''offer'')]\<rparr>]
   \<and> two_join rtc_ok 0 ''abcd1234'' ''a1'' ''b2''
       = [(''a1'', Emit (Emit_offer (Some ''b2'') (JObj [(''type'', JStr ''offer'')])))]
   \<and> two_join rtc_ok 0 ''abcd1234'' ''b2'' ''a1''
       = [(''b2'', Emit (Emit_offer (Some ''a1'') (JObj [(''type'', JStr ''offer'')])))]"
  using offerer_election [of "''a1''" "''b2''" "''abcd1234''" rtc_ok 0 1
          "JObj [(''type'', JStr ''offer'')]" 2
          "[Poll [join_envelope ''b2'' 5, join_envelope ''a1'' 4], Poll [join_envelope ''a1'' 4]]"
          "''abcd1234''" 5]
  by (simp add: rtc_ok_def init_client_def join_envelope_def Set_add_def Let_def)

text \<open>
  Claim C1 as stated fails in the live-channel binding: \<open>b\<close> joins first, \<open>a\<close> second, and
  the offer comes from \<open>b\<close>, the larger id.
\<close>

theorem live_offerer_is_first_joiner_counterexample:
  "two_join rtc_ok 0 ''abcd1234'' ''b'' ''a''
     = [(''b'', Emit (Emit_offer (Some ''a'') (JObj [(''type'', JStr ''offer'')])))]
   \<and> \<not> ''b'' < ''a''"
  by (simp add: two_join_def init_server_def Set_add_def socket_to_def emit_to_def Let_def
        on_new_participant_def init_live_client_def truthy_id_def live_createAndSendOffer_def
        rtc_ok_def)

section \<open>The live-channel server\<close>

lemma server_step_inv:
  assumes "server_inv s"
  shows "server_inv (fst (server_step e s))"
proof (cases e)
  case (Connection sid)
  then show ?thesis
    using assms by (auto simp: server_inv_def Set_add_set Set_add_distinct)
next
  case (Message sid m)
  then show ?thesis
    using assms
    by (cases m) (auto simp: server_inv_def Set_add_set Set_add_distinct Let_def)
next
  case (Disconnect sid)
  then show ?thesis
    using assms by (auto simp: server_inv_def Let_def distinct_removeAll)
qed

lemma run_server_inv:
  assumes "server_inv s"
  shows "server_inv (fst (run_server evs s))"
  using assms
proof (induction evs arbitrary: s)
  case Nil
  then show ?case by simp
next
  case (Cons e evs)
  obtain s1 out where h: "server_step e s = (s1, out)"
    by (cases "server_step e s") auto
  then have "server_inv s1" using server_step_inv [OF Cons.prems, of e] by simp
  then have "server_inv (fst (run_server evs s1))" by (rule Cons.IH)
  then show ?case using h by (simp add: case_prod_beta)
qed

lemma init_server_inv: "server_inv init_server"
  by (simp add: server_inv_def init_server_def)

lemma filter_eq_distinct:
  "distinct xs \<Longrightarrow> x \<in> set xs \<Longrightarrow> filter (\<lambda>m. m = x) xs = [x]"
proof (induction xs)
  case Nil
  then show ?case by simp
next
  case (Cons y ys)
  show ?case
  proof (cases "y = x")
    case True
    then have "x \<notin> set ys" using Cons.prems by simp
    then have "filter (\<lambda>m. m = x) ys = []" by (auto simp: filter_empty_conv)
    then show ?thesis using True by simp
  next
    case False
    then show ?thesis using Cons by simp
  qed
qed

lemma relay_set:
  "set (relay s sid targetId msg)
     = (if listeners s sid = [] then {} else (\<lambda>m. (m, msg)) ` set (io_to (rooms s) targetId))"
  by (auto simp: relay_def emit_to_def)

lemma relay_once:
  "listeners s sid = [r] \<Longrightarrow> relay s sid targetId msg = emit_to (io_to (rooms s) targetId) msg"
  by (simp add: relay_def)

lemma relay_to_target:
  assumes "server_inv s" and "T \<in> set (connected s)" and "listeners s S \<noteq> []"
  shows "(T, msg) \<in> set (relay s S (Some T) msg)
         \<and> (\<forall>d \<in> set (relay s S (Some T) msg). snd d = msg)
         \<and> (length (listeners s S) = 1 \<longrightarrow>
              filter (\<lambda>d. fst d = T) (relay s S (Some T) msg) = [(T, msg)])"
proof -
  have mem: "T \<in> set (rooms s T)" and dist: "distinct (rooms s T)"
    using assms(1) assms(2) by (simp_all add: server_inv_def)
  have a: "(T, msg) \<in> set (relay s S (Some T) msg)"
    using mem assms(3) by (simp add: relay_set io_to_def)
  have b: "\<forall>d \<in> set (relay s S (Some T) msg). snd d = msg"
    by (auto simp: relay_set split: if_splits)
  have c: "filter (\<lambda>d. fst d = T) (relay s S (Some T) msg) = [(T, msg)]"
    if len: "length (listeners s S) = 1"
  proof -
    obtain r where "listeners s S = [r]"
      using len by (cases "listeners s S") auto
    then have "relay s S (Some T) msg = map (\<lambda>m. (m, msg)) (rooms s T)"
      by (simp add: relay_once emit_to_def io_to_def)
    then show ?thesis
      using filter_eq_distinct [OF dist mem] by (simp add: filter_map comp_def)
  qed
  show ?thesis using a b c by blast
qed

text \<open>
  Claim C8. After any sequence of events, a socket \<open>S\<close> that is connected and has joined a
  room sends an offer, an answer or an ICE candidate with target \<open>T\<close>, a connected socket:
  \<open>T\<close> is sent the message with \<open>S\<close> in place of the target and the payload as it was,
  nothing but that message is sent, and when \<open>S\<close> has joined once \<open>T\<close> gets exactly one
  copy.
\<close>

theorem relay_substitutes_sender:
  assumes "S \<in> set (connected (fst (run_server evs init_server)))"
    and "T \<in> set (connected (fst (run_server evs init_server)))"
    and "listeners (fst (run_server evs init_server)) S \<noteq> []"
  shows "(let s = fst (run_server evs init_server);
              out = snd (server_step (Message S (Emit_offer (Some T) offer)) s)
          in (T, Offer S offer) \<in> set out
             \<and> (\<forall>d \<in> set out. snd d = Offer S offer)
             \<and> (length (listeners s S) = 1 \<longrightarrow>
                  filter (\<lambda>d. fst d = T) out = [(T, Offer S offer)]))
       \<and> (let s = fst (run_server evs init_server);
              out = snd (server_step (Message S (Emit_answer (Some T) answer)) s)
          in (T, Answer S answer) \<in> set out
             \<and> (\<forall>d \<in> set out. snd d = Answer S answer)
             \<and> (length (listeners s S) = 1 \<longrightarrow>
                  filter (\<lambda>d. fst d = T) out = [(T, Answer S answer)]))
       \<and> (let s = fst (run_server evs init_server);
              out = snd (server_step (Message S (Emit_ice_candidate (Some T) candidate)) s)
          in (T, Ice_candidate S candidate) \<in> set out
             \<and> (\<forall>d \<in> set out. snd d = Ice_candidate S candidate)
             \<and> (length (listeners s S) = 1 \<longrightarrow>
                  filter (\<lambda>d. fst d = T) out = [(T, Ice_candidate S candidate)]))"
proof -
  have inv: "server_inv (fst (run_server evs init_server))"
    using run_server_inv [OF init_server_inv] .
  show ?thesis
    using assms(1) relay_to_target [OF inv assms(2) assms(3)]
    by (simp add: Let_def)
qed

text \<open>\<open>A\<close> and \<open>B\<close> are in room \<open>abcd1234\<close>; \<open>A\<close> sends each of the three kinds to \<open>B\<close>.\<close>

theorem relay_substitutes_sender_witness:
  "''A'' \<in> set (connected (fst (run_server [Connection ''A'', Connection ''B'',
         Message ''A'' (Join_room ''abcd1234''), Message ''B'' (Join_room ''abcd1234'')] init_server)))
   \<and> ''B'' \<in> set (connected (fst (run_server [Connection ''A'', Connection ''B'',
         Message ''A'' (Join_room ''abcd1234''), Message ''B'' (Join_room ''abcd1234'')] init_server)))
   \<and> listeners (fst (run_server [Connection ''A'', Connection ''B'',
         Message ''A'' (Join_room ''abcd1234''), Message ''B'' (Join_room ''abcd1234'')] init_server)) ''A''
       = [''abcd1234'']
   \<and> snd (server_step (Message ''A'' (Emit_offer (Some ''B'') (JObj [(''sdp'', JStr ''v=0'')])))
         (fst (run_server [Connection ''A'', Connection ''B'',
            Message ''A'' (Join_room ''abcd1234''), Message ''B'' (Join_room ''abcd1234'')] init_server)))
       = [(''B'', Offer ''A'' (JObj [(''sdp'', JStr ''v=0'')]))]
   \<and> snd (server_step (Message ''A'' (Emit_answer (Some ''B'') JNull))
         (fst (run_server [Connection ''A'', Connection ''B'',
            Message ''A'' (Join_room ''abcd1234''), Message ''B'' (Join_room ''abcd1234'')] init_server)))
       = [(''B'', Answer ''A'' JNull)]
   \<and> snd (server_step (Message ''A'' (Emit_ice_candidate (Some ''B'') (JStr ''candidate'')))
         (fst (run_server [Connection ''A'', Connection ''B'',
            Message ''A'' (Join_room ''abcd1234''), Message ''B'' (Join_room ''abcd1234'')] init_server)))
       = [(''B'', Ice_candidate ''A'' (JStr ''candidate''))]"
  using relay_substitutes_sender [of "''A''" "[Connection ''A'', Connection ''B'',
         Message ''A'' (Join_room ''abcd1234''), Message ''B'' (Join_room ''abcd1234'')]" "''B''"
         "JObj [(''sdp'', JStr ''v=0'')]" JNull "JStr ''candidate''"]
  by (simp add: init_server_def Set_add_def socket_to_def emit_to_def relay_def io_to_def Let_def)

text \<open>
  Claim C7. When a connected socket that has joined room \<open>r\<close> disconnects, every other
  member of \<open>r\<close> is sent \<open>peer-disconnected\<close> with its id; and a client whose
  \<open>otherPeerId\<close> is that id closes its connection if it has one, drops it, forgets the
  peer and shows the peer as left.
\<close>

theorem disconnect_notifies_room:
  assumes "sid \<in> set (connected s)" and "r \<in> set (listeners s sid)"
    and "m \<in> set (rooms s r)" and "m \<noteq> sid"
    and "lc_otherPeerId c = Some sid"
  shows "(m, Peer_disconnected sid) \<in> set (snd (server_step (Disconnect sid) s))
       \<and> on_peer_disconnected c sid
           = (\<lparr>lc_otherPeerId = None, lc_peerConnection = None, lc_statusDisplay = Peer_Left\<rparr>,
              (if lc_peerConnection c = None then [] else [Close_peerConnection]))"
proof -
  have "(m, Peer_disconnected sid) \<in> set (snd (server_step (Disconnect sid) s))"
    using assms(1) assms(2) assms(3) assms(4)
    by (auto simp: Let_def socket_to_def emit_to_def)
  moreover have "on_peer_disconnected c sid
           = (\<lparr>lc_otherPeerId = None, lc_peerConnection = None, lc_statusDisplay = Peer_Left\<rparr>,
              (if lc_peerConnection c = None then [] else [Close_peerConnection]))"
    using assms(5) by (cases c) (simp add: on_peer_disconnected_def split: option.split)
  ultimately show ?thesis by simp
qed

theorem disconnect_notifies_room_witness:
  "''A'' \<in> set (connected (fst (run_server [Connection ''A'', Connection ''B'',
         Message ''A'' (Join_room ''abcd1234''), Message ''B'' (Join_room ''abcd1234'')] init_server)))
   \<and> ''abcd1234'' \<in> set (listeners (fst (run_server [Connection ''A'', Connection ''B'',
         Message ''A'' (Join_room ''abcd1234''), Message ''B'' (Join_room ''abcd1234'')] init_server)) ''A'')
   \<and> ''B'' \<in> set (rooms (fst (run_server [Connection ''A'', Connection ''B'',
         Message ''A'' (Join_room ''abcd1234''), Message ''B'' (Join_room ''abcd1234'')] init_server)) ''abcd1234'')
   \<and> ''B'' \<noteq> ''A''
   \<and> lc_otherPeerId ((init_live_client (7::nat))\<lparr>lc_otherPeerId := Some ''A''\<rparr>) = Some ''A''
   \<and> snd (server_step (Disconnect ''A'') (fst (run_server [Connection ''A'', Connection ''B'',
         Message ''A'' (Join_room ''abcd1234''), Message ''B'' (Join_room ''abcd1234'')] init_server)))
       = [(''B'', Peer_disconnected ''A'')]
   \<and> on_peer_disconnected ((init_live_client (7::nat))\<lparr>lc_otherPeerId := Some ''A''\<rparr>) ''A''
       = (\<lparr>lc_otherPeerId = None, lc_peerConnection = None, lc_statusDisplay = Peer_Left\<rparr>,
          [Close_peerConnection])"
  using disconnect_notifies_room [of "''A''" "fst (run_server [Connection ''A'', Connection ''B'',
         Message ''A'' (Join_room ''abcd1234''), Message ''B'' (Join_room ''abcd1234'')] init_server)"
          "''abcd1234''" "''B''" "(init_live_client (7::nat))\<lparr>lc_otherPeerId := Some ''A''\<rparr>"]
  by (simp add: init_server_def Set_add_def socket_to_def emit_to_def Let_def
        init_live_client_def on_peer_disconnected_def)

section \<open>Nothing comes back to its sender\<close>

lemma createAndSendOffer_clientId:
  "clientId (fst (createAndSendOffer api st other)) = clientId st"
  by (simp add: createAndSendOffer_def split: option.split prod.split bool.split)

lemma handle_envelope_clientId:
  "clientId (fst (handle_envelope api st env)) = clientId st"
  using createAndSendOffer_clientId
          [of api "st\<lparr>peersInRoom := Set_add (fromPeer env) (peersInRoom st)\<rparr>"
              "hd (Set_add (fromPeer env) (peersInRoom st))"]
  by (simp add: handle_envelope_def Let_def case_prod_beta split: option.split bool.split)

lemma handle_envelope_own:
  "fromPeer env = clientId st \<Longrightarrow> handle_envelope api st env = (st, [], False)"
  by (simp add: handle_envelope_def)

lemma for_each_envelope_discards_own:
  "for_each_envelope api st envs
     = for_each_envelope api st (filter (\<lambda>e. fromPeer e \<noteq> clientId st) envs)"
proof (induction envs arbitrary: st)
  case Nil
  show ?case by simp
next
  case (Cons env envs)
  show ?case
  proof (cases "fromPeer env = clientId st")
    case True
    then show ?thesis using Cons.IH [of st] by (simp add: handle_envelope_own)
  next
    case False
    obtain st1 out threw where h: "handle_envelope api st env = (st1, out, threw)"
      by (cases "handle_envelope api st env") auto
    then have "clientId st1 = clientId st"
      using handle_envelope_clientId [of api st env] by simp
    then show ?thesis using False h Cons.IH [of st1] by simp
  qed
qed

lemma broadcast_excludes_sender:
  "sid \<notin> fst ` set (snd (server_step (Message sid (Join_room r)) s))"
  "sid \<notin> fst ` set (snd (server_step (Disconnect sid) s))"
  by (auto simp: Let_def socket_to_def emit_to_def)

lemma targeted_recipients:
  "fst ` set (snd (server_step (Message sid (Emit_offer t payload)) s)) \<subseteq> set (io_to (rooms s) t)"
  "fst ` set (snd (server_step (Message sid (Emit_answer t payload)) s)) \<subseteq> set (io_to (rooms s) t)"
  "fst ` set (snd (server_step (Message sid (Emit_ice_candidate t payload)) s)) \<subseteq> set (io_to (rooms s) t)"
  by (auto simp: relay_set split: if_splits)

text \<open>
  Claim C4, as amended. Polling binding: the client handles a batch as if the envelopes
  with its own id as \<open>fromPeer\<close> were not in it; each of them leaves the client as it was
  and sends nothing. Live-channel binding: what the server sends on a join and on a
  disconnect never goes to the socket that joined or disconnected. A relayed offer,
  answer or ICE candidate goes to the sockets of the room named by its target and to no
  others: it does not come back to the sender unless the sender is in that room, as it
  is when the target is its own id.
\<close>

theorem no_delivery_to_sender:
  "handleIncomingSignals api st envelopes
     = handleIncomingSignals api st (filter (\<lambda>e. fromPeer e \<noteq> clientId st) envelopes)
   \<and> (fromPeer env = clientId st \<longrightarrow> handle_envelope api st env = (st, [], False))
   \<and> sid \<notin> fst ` set (snd (server_step (Message sid (Join_room r)) s))
   \<and> sid \<notin> fst ` set (snd (server_step (Disconnect sid) s))
   \<and> (sid \<notin> set (io_to (rooms s) t) \<longrightarrow>
        sid \<notin> fst ` set (snd (server_step (Message sid (Emit_offer t payload)) s))
        \<and> sid \<notin> fst ` set (snd (server_step (Message sid (Emit_answer t payload)) s))
        \<and> sid \<notin> fst ` set (snd (server_step (Message sid (Emit_ice_candidate t payload)) s)))"
proof -
  have p: "handleIncomingSignals api st envelopes
     = handleIncomingSignals api st (filter (\<lambda>e. fromPeer e \<noteq> clientId st) envelopes)"
    using for_each_envelope_discards_own [of api st "rev envelopes"]
    by (simp add: handleIncomingSignals_def rev_filter)
  have own: "fromPeer env = clientId st \<longrightarrow> handle_envelope api st env = (st, [], False)"
    by (simp add: handle_envelope_own)
  have t: "sid \<notin> set (io_to (rooms s) t) \<longrightarrow>
        sid \<notin> fst ` set (snd (server_step (Message sid (Emit_offer t payload)) s))
        \<and> sid \<notin> fst ` set (snd (server_step (Message sid (Emit_answer t payload)) s))
        \<and> sid \<notin> fst ` set (snd (server_step (Message sid (Emit_ice_candidate t payload)) s))"
    using targeted_recipients [of sid t payload s] by (meson subsetD)
  show ?thesis
    using p own t broadcast_excludes_sender(1) [of sid r s] broadcast_excludes_sender(2) [of sid s]
    by simp
qed

text \<open>\<open>a\<close> reads its own join along with the join of \<open>b\<close>; \<open>A\<close> joins, relays to \<open>B\<close>, leaves.\<close>

theorem no_delivery_to_sender_witness:
  "fromPeer (join_envelope ''a'' 1) = clientId (init_client ''abcd1234'' ''a'' (0::nat))
   \<and> ''A'' \<notin> set (io_to (rooms (fst (run_server [Connection ''A'', Connection ''B'',
         Message ''A'' (Join_room ''abcd1234''), Message ''B'' (Join_room ''abcd1234'')] init_server))) (Some ''B''))
   \<and> handleIncomingSignals rtc_ok (init_client ''abcd1234'' ''a'' 0)
        [join_envelope ''b'' 2, join_envelope ''a'' 1]
       = handleIncomingSignals rtc_ok (init_client ''abcd1234'' ''a'' 0) [join_envelope ''b'' 2]
   \<and> handle_envelope rtc_ok (init_client ''abcd1234'' ''a'' 0) (join_envelope ''a'' 1)
       = (init_client ''abcd1234'' ''a'' 0, [], False)
   \<and> snd (server_step (Message ''A'' (Join_room ''abcd1234''))
              (fst (run_server [Connection ''A'', Connection ''B'',
         Message ''A'' (Join_room ''abcd1234''), Message ''B'' (Join_room ''abcd1234'')] init_server)))
       = [(''B'', New_participant ''A'')]
   \<and> snd (server_step (Disconnect ''A'') (fst (run_server [Connection ''A'', Connection ''B'',
         Message ''A'' (Join_room ''abcd1234''), Message ''B'' (Join_room ''abcd1234'')] init_server)))
       = [(''B'', Peer_disconnected ''A'')]
   \<and> snd (server_step (Message ''A'' (Emit_offer (Some ''B'') JNull))
              (fst (run_server [Connection ''A'', Connection ''B'',
         Message ''A'' (Join_room ''abcd1234''), Message ''B'' (Join_room ''abcd1234'')] init_server)))
       = [(''B'', Offer ''A'' JNull)]"
  using no_delivery_to_sender [of rtc_ok "init_client ''abcd1234'' ''a'' (0::nat)"
          "[join_envelope ''b'' 2, join_envelope ''a'' 1]" "join_envelope ''a'' 1" "''A''"
          "''abcd1234''" "fst (run_server [Connection ''A'', Connection ''B'',
         Message ''A'' (Join_room ''abcd1234''), Message ''B'' (Join_room ''abcd1234'')] init_server)" "Some ''B''" JNull]
  by (simp add: init_server_def Set_add_def socket_to_def emit_to_def relay_def io_to_def Let_def
        init_client_def join_envelope_def)

text \<open>
  Claim C4 as stated fails for a targeted relay: a socket that names itself as the target
  is sent its own offer.
\<close>

theorem targeted_relay_reaches_sender_counterexample:
  "snd (run_server [Connection ''A'', Message ''A'' (Join_room ''abcd1234''),
                    Message ''A'' (Emit_offer (Some ''A'') JNull)] init_server)
     = [(''A'', Offer ''A'' JNull)]"
  by (simp add: init_server_def Set_add_def socket_to_def emit_to_def relay_def io_to_def Let_def)

section \<open>Joining again, leaving\<close>

text \<open>
  Claim C6, as amended. A \<open>join-room\<close> from a socket leaves the rooms as one such join
  leaves them, however often it is repeated, and each one, the repeated ones too, is
  announced to the other members of the room. A disconnect leaves every room alone that
  the socket is not in, and a socket that has joined no room disconnects without any
  notification.
\<close>

theorem rejoin_and_leave_keep_registry:
  "rooms (fst (server_step (Message sid (Join_room r))
                 (fst (server_step (Message sid (Join_room r)) s))))
     = rooms (fst (server_step (Message sid (Join_room r)) s))
   \<and> (sid \<in> set (connected s) \<longrightarrow>
        snd (server_step (Message sid (Join_room r)) s)
          = emit_to (filter (\<lambda>m. m \<noteq> sid) (rooms (fst (server_step (Message sid (Join_room r)) s)) r))
              (New_participant sid))
   \<and> (sid' \<notin> set (rooms s r') \<longrightarrow> rooms (fst (server_step (Disconnect sid') s)) r' = rooms s r')
   \<and> (listeners s sid' = [] \<longrightarrow> snd (server_step (Disconnect sid') s) = [])"
  by (auto simp: Let_def Set_add_def socket_to_def)

text \<open>\<open>A\<close> is in the room with \<open>B\<close> and joins it again; \<open>C\<close> is connected and has joined nothing.\<close>

theorem rejoin_and_leave_keep_registry_witness:
  "''A'' \<in> set (connected (fst (run_server [Connection ''A'', Connection ''B'', Connection ''C'',
         Message ''A'' (Join_room ''abcd1234''), Message ''B'' (Join_room ''abcd1234'')] init_server)))
   \<and> ''C'' \<notin> set (rooms (fst (run_server [Connection ''A'', Connection ''B'', Connection ''C'',
         Message ''A'' (Join_room ''abcd1234''), Message ''B'' (Join_room ''abcd1234'')] init_server)) ''abcd1234'')
   \<and> listeners (fst (run_server [Connection ''A'', Connection ''B'', Connection ''C'',
         Message ''A'' (Join_room ''abcd1234''), Message ''B'' (Join_room ''abcd1234'')] init_server)) ''C'' = []
   \<and> rooms (fst (server_step (Message ''A'' (Join_room ''abcd1234''))
        (fst (run_server [Connection ''A'', Connection ''B'', Connection ''C'',
         Message ''A'' (Join_room ''abcd1234''), Message ''B'' (Join_room ''abcd1234'')] init_server)))) ''abcd1234''
       = [''A'', ''B'']
   \<and> snd (server_step (Message ''A'' (Join_room ''abcd1234''))
        (fst (run_server [Connection ''A'', Connection ''B'', Connection ''C'',
         Message ''A'' (Join_room ''abcd1234''), Message ''B'' (Join_room ''abcd1234'')] init_server)))
       = [(''B'', New_participant ''A'')]
   \<and> rooms (fst (server_step (Disconnect ''C'')
        (fst (run_server [Connection ''A'', Connection ''B'', Connection ''C'',
         Message ''A'' (Join_room ''abcd1234''), Message ''B'' (Join_room ''abcd1234'')] init_server)))) ''abcd1234''
       = [''A'', ''B'']
   \<and> snd (server_step (Disconnect ''C'')
        (fst (run_server [Connection ''A'', Connection ''B'', Connection ''C'',
         Message ''A'' (Join_room ''abcd1234''), Message ''B'' (Join_room ''abcd1234'')] init_server)))
       = []"
  using rejoin_and_leave_keep_registry [of "''A''" "''abcd1234''"
          "fst (run_server [Connection ''A'', Connection ''B'', Connection ''C'',
         Message ''A'' (Join_room ''abcd1234''), Message ''B'' (Join_room ''abcd1234'')] init_server)"
          "''C''" "''abcd1234''"]
  by (simp add: init_server_def Set_add_def socket_to_def emit_to_def Let_def)

text \<open>
  Claim C6 as stated fails: after \<open>A\<close> has joined the room twice, its offer is delivered to
  \<open>B\<close> twice, and the second join is announced to \<open>B\<close> again.
\<close>

theorem rejoin_not_idempotent_counterexample:
  "snd (run_server [Connection ''A'', Connection ''B'', Message ''B'' (Join_room ''abcd1234''),
                    Message ''A'' (Join_room ''abcd1234''),
                    Message ''A'' (Emit_offer (Some ''B'') JNull)] init_server)
     = [(''B'', New_participant ''A''), (''B'', Offer ''A'' JNull)]
   \<and> snd (run_server [Connection ''A'', Connection ''B'', Message ''B'' (Join_room ''abcd1234''),
                    Message ''A'' (Join_room ''abcd1234''), Message ''A'' (Join_room ''abcd1234''),
                    Message ''A'' (Emit_offer (Some ''B'') JNull)] init_server)
     = [(''B'', New_participant ''A''), (''B'', New_participant ''A''),
        (''B'', Offer ''A'' JNull), (''B'', Offer ''A'' JNull)]"
  by (simp add: init_server_def Set_add_def socket_to_def emit_to_def relay_def io_to_def Let_def)

end
